theory Spec2Isabelle
  imports Complex_Main "HOL-Library.Multiset"
begin

section \<open>Common data\<close>

text \<open>
  Python exceptions that the modelled code can raise.  Floating point numbers are
  idealised as \<^typ>\<open>real\<close>; every comparison of the source is kept as it is written.
\<close>

datatype error = NameError | IndexError | KeyError | ValueError | AttributeError

text \<open>A numpy vector is a list of reals, a two-dimensional numpy array a list of rows.\<close>

type_synonym vec = "real list"
type_synonym matrix = "real list list"

text \<open>\<open>geometry_msgs/Point\<close>, built positionally as \<open>Point(x, y, z)\<close>.\<close>

datatype point = Point real real real

text \<open>
  Indexing \<open>a[k]\<close> of a Python list or of the first axis of a numpy array: a negative
  index counts from the end, anything outside raises \<open>IndexError\<close>.
\<close>

definition py_get :: "'a list \<Rightarrow> int \<Rightarrow> error + 'a" where
  "py_get xs k =
     (let len = int (length xs); j = (if k < 0 then len + k else k)
      in if 0 \<le> j \<and> j < len then Inr (xs ! nat j) else Inl IndexError)"

text \<open>Python's \<open>all(xs)\<close> on a list of booleans.\<close>

definition py_all :: "bool list \<Rightarrow> bool" where
  "py_all bs = list_all (\<lambda>b. b) bs"

text \<open>Elementwise difference of two rows and \<open>np.linalg.norm\<close> of a vector.\<close>

definition vsub :: "vec \<Rightarrow> vec \<Rightarrow> vec" where
  "vsub a b = map2 (-) a b"

definition np_norm :: "vec \<Rightarrow> real" where
  "np_norm v = sqrt (sum_list (map (\<lambda>a. a * a) v))"

text \<open>The inner product of two rows, \<open>np.transpose\<close> and \<open>np.dot\<close> of two matrices.
  \<open>np.dot\<close> raises \<open>ValueError\<close> unless every row of the left matrix is as long as the
  right matrix has rows.\<close>

definition inner_prod :: "vec \<Rightarrow> vec \<Rightarrow> real" where
  "inner_prod a b = sum_list (map2 (*) a b)"

definition np_transpose :: "matrix \<Rightarrow> matrix" where
  "np_transpose M = transpose M"

definition np_dot :: "matrix \<Rightarrow> matrix \<Rightarrow> error + matrix" where
  "np_dot A B =
     (if list_all (\<lambda>row. length row = length B) A
      then Inr (map (\<lambda>row. map (\<lambda>col. inner_prod row col) (transpose B)) A)
      else Inl ValueError)"

section \<open>The master node (\<open>scripts/master_node.py\<close>)\<close>

subsection \<open>Messages and the mission state\<close>

text \<open>\<open>FormationPositions\<close>: the goals of all robots, the completion time and the
  header's time stamp.\<close>

record formation_positions =
  goals :: "point list"
  tf :: real
  header_stamp :: real

text \<open>
  The per-robot state message.  The bridge fills the three flags with the float
  parameters of the wire message, the master node reads them as booleans, so the type
  of the flags is a parameter.
\<close>

record 'f robot_state =
  stamp :: real
  received_goal :: 'f
  mission_started :: 'f
  arrived :: 'f
  point :: point

text \<open>What a callback or the control loop sends out: a warning of the log, the goals
  on \<open>/formation\<close>, the signal on \<open>/go\<close>.\<close>

datatype effect = LogWarn string | PublishFormation formation_positions | PublishGo

text \<open>
  The fields of class \<open>Mission\<close>.  \<open>origin\<close>, \<open>east\<close>, the raw parameter \<open>S\<close> and the
  topic names are left out: no method modelled here reads them.
\<close>

record mission =
  n :: nat
  R :: real
  delta :: real
  vmax :: real
  P :: matrix
  S_array :: matrix
  G :: matrix
  current_P :: matrix
  goals_msg :: formation_positions
  arrival_state :: "bool list"
  received_goals :: "bool list"
  formation_completed :: bool
  valid_P :: bool
  valid_S :: bool
  P_is_set :: bool
  S_is_set :: bool
  G_is_set :: bool
  M_START :: bool
  M_END :: bool

text \<open>\<open>Mission.__init__\<close>, from the parameters \<open>nRobots\<close>, \<open>R\<close>, \<open>vmax\<close> and \<open>shape\<close>.\<close>

definition init :: "nat \<Rightarrow> real \<Rightarrow> real \<Rightarrow> matrix \<Rightarrow> mission" where
  "init nRobots r v shape =
     \<lparr> n = nRobots, R = r, delta = 2 * (2 powr (1/2)) * r, vmax = v,
       P = replicate nRobots [0, 0, 0],
       S_array = shape,
       G = replicate nRobots [0, 0, 0],
       current_P = replicate nRobots [0, 0, 0],
       goals_msg = \<lparr> goals = replicate nRobots (Point 0 0 0), tf = 0, header_stamp = 0 \<rparr>,
       arrival_state = replicate nRobots False,
       received_goals = replicate nRobots False,
       formation_completed = False,
       valid_P = False, valid_S = False,
       P_is_set = False, S_is_set = False, G_is_set = False,
       M_START = False, M_END = False \<rparr>"

subsection \<open>Validation\<close>

text \<open>
  The inner loop \<open>for j in range(n)\<close> of \<open>validate_positions\<close> for a fixed \<open>i\<close>, over
  the indices still to visit.  \<open>Inr (Some j)\<close>: the pair \<open>(i, j)\<close> is not farther apart
  than the threshold, the flag is cleared and the loop breaks; \<open>Inr None\<close>: the loop
  ran to its end.
\<close>

fun validate_inner :: "matrix \<Rightarrow> real \<Rightarrow> nat \<Rightarrow> nat list \<Rightarrow> error + nat option" where
  "validate_inner M d i [] = Inr None"
| "validate_inner M d i (j # js) =
     (if i \<noteq> j then
        (case py_get M (int i) of
           Inl e \<Rightarrow> Inl e
         | Inr a \<Rightarrow>
             (case py_get M (int j) of
                Inl e \<Rightarrow> Inl e
              | Inr b \<Rightarrow>
                  if np_norm (vsub a b) \<le> d then Inr (Some j)
                  else validate_inner M d i js))
      else validate_inner M d i js)"

text \<open>
  The outer loop \<open>for i in range(n)\<close>.  Once an inner loop has cleared the flag, the
  next iteration's \<open>if not self.valid_...: break\<close> leaves the outer loop (or the range
  is exhausted), so nothing more is compared: the result is the offending pair.
\<close>

fun validate_outer :: "matrix \<Rightarrow> real \<Rightarrow> nat \<Rightarrow> nat list \<Rightarrow> error + (nat \<times> nat) option" where
  "validate_outer M d m [] = Inr None"
| "validate_outer M d m (i # is) =
     (case validate_inner M d i [0..<m] of
        Inl e \<Rightarrow> Inl e
      | Inr (Some j) \<Rightarrow> Inr (Some (i, j))
      | Inr None \<Rightarrow> validate_outer M d m is)"

text \<open>
  \<open>validate_positions\<close>: the exception (if any), the state left behind and the
  warnings logged.
\<close>

definition validate_positions :: "mission \<Rightarrow> error option \<times> mission \<times> effect list" where
  "validate_positions s =
     (let s1 = s\<lparr>valid_P := True, valid_S := True\<rparr> in
      case validate_outer (P s1) (delta s1) (n s1) [0..<n s1] of
        Inl e \<Rightarrow> (Some e, s1, [])
      | Inr rP \<Rightarrow>
          (let s2 = (case rP of None \<Rightarrow> s1 | Some _ \<Rightarrow> s1\<lparr>valid_P := False\<rparr>);
               o2 = (case rP of None \<Rightarrow> []
                     | Some _ \<Rightarrow> [LogWarn ''Robots %s and %s are not well seperated''])
           in case validate_outer (S_array s2) (delta s2) (n s2) [0..<n s2] of
                Inl e \<Rightarrow> (Some e, s2, o2)
              | Inr rS \<Rightarrow>
                  (None,
                   (case rS of None \<Rightarrow> s2 | Some _ \<Rightarrow> s2\<lparr>valid_S := False\<rparr>),
                   o2 @ (case rS of None \<Rightarrow> []
                         | Some _ \<Rightarrow> [LogWarn ''Goals %s and %s are not well seperated'']))))"

subsection \<open>Assignment\<close>

text \<open>
  \<open>lapjv\<close> is the solver of the external package \<open>lap\<close>; it is a parameter of the
  model.  It returns the optimal cost and the two assignment vectors, or raises.
\<close>

type_synonym solver = "matrix \<Rightarrow> error + (real \<times> int list \<times> int list)"

text \<open>The cost matrix \<open>K = -1.0 * np.dot(P, np.transpose(S_array))\<close>.\<close>

definition K :: "mission \<Rightarrow> error + matrix" where
  "K s =
     (case np_dot (P s) (np_transpose (S_array s)) of
        Inl e \<Rightarrow> Inl e
      | Inr D \<Rightarrow> Inr (map (map (\<lambda>a. -1 * a)) D))"

text \<open>
  The loop \<open>for i in range(n)\<close> of \<open>compute_assignment\<close>, with the running maximum
  \<open>tf\<close> as accumulator.  Assigning a row into \<open>G[i,:]\<close> needs a row of three entries.
  The division is the one of the reals; the properties below are stated for
  \<open>vmax > 0\<close>.
\<close>

fun assign_loop :: "int list \<Rightarrow> mission \<Rightarrow> real \<Rightarrow> nat list \<Rightarrow> error + (mission \<times> real)" where
  "assign_loop xs s t [] = Inr (s, t)"
| "assign_loop xs s t (i # is) =
     (case py_get xs (int i) of
        Inl e \<Rightarrow> Inl e
      | Inr k \<Rightarrow>
     (case py_get (S_array s) k of
        Inl e \<Rightarrow> Inl e
      | Inr g \<Rightarrow>
          if length (G s) \<le> i then Inl IndexError
          else if length g \<noteq> 3 then Inl ValueError
          else if length (goals (goals_msg s)) \<le> i then Inl IndexError
          else
            (let s1 = s\<lparr>G := (G s)[i := g]\<rparr>;
                 p = Point (G s1 ! i ! 0) (G s1 ! i ! 1) (G s1 ! i ! 2);
                 s2 = s1\<lparr>goals_msg := (goals_msg s1)\<lparr>goals := (goals (goals_msg s1))[i := p]\<rparr>\<rparr>
             in case py_get (P s2) (int i) of
                  Inl e \<Rightarrow> Inl e
                | Inr a \<Rightarrow>
                    (let v = np_norm (vsub a (G s2 ! i)) / vmax s2
                     in assign_loop xs s2 (if v > t then v else t) is))))"

text \<open>\<open>compute_assignment\<close>; \<open>now\<close> is the value of \<open>rospy.Time.now()\<close>.\<close>

definition compute_assignment :: "solver \<Rightarrow> real \<Rightarrow> mission \<Rightarrow> error + (mission \<times> effect list)" where
  "compute_assignment lapjv now s =
     (case K s of
        Inl e \<Rightarrow> Inl e
      | Inr cost \<Rightarrow>
     (case lapjv cost of
        Inl e \<Rightarrow> Inl e
      | Inr (k_opt, xs, ys) \<Rightarrow>
     (case assign_loop xs s 0 [0..<n s] of
        Inl e \<Rightarrow> Inl e
      | Inr (s1, t) \<Rightarrow>
          Inr (s1\<lparr>goals_msg := (goals_msg s1)\<lparr>tf := t, header_stamp := now\<rparr>,
                  G_is_set := True\<rparr>,
               [LogWarn ''Solving Assignement Problem....'',
                LogWarn ''Assignment is solved in %s seconds'']))))"

subsection \<open>Callbacks\<close>

text \<open>
  The robot state callbacks \<open>r0Cb\<close> ... \<open>r4Cb\<close> differ only in the index \<open>i\<close>.  Each
  of the three indexed stores raises \<open>IndexError\<close> out of range, after the stores
  before it have been made.
\<close>

definition rCb :: "nat \<Rightarrow> bool robot_state \<Rightarrow> mission \<Rightarrow> error option \<times> mission" where
  "rCb i msg s =
     (case point msg of Point px py pz \<Rightarrow>
        if length (current_P s) \<le> i then (Some IndexError, s)
        else
          (let s1 = s\<lparr>current_P := (current_P s)[i := [px, py, pz]]\<rparr> in
           if length (arrival_state s1) \<le> i then (Some IndexError, s1)
           else
             (let s2 = s1\<lparr>arrival_state := (arrival_state s1)[i := arrived msg]\<rparr> in
              if length (received_goals s2) \<le> i then (Some IndexError, s2)
              else (None, s2\<lparr>received_goals := (received_goals s2)[i := received_goal msg]\<rparr>))))"

definition r0Cb :: "bool robot_state \<Rightarrow> mission \<Rightarrow> error option \<times> mission" where
  "r0Cb = rCb 0"

definition r1Cb :: "bool robot_state \<Rightarrow> mission \<Rightarrow> error option \<times> mission" where
  "r1Cb = rCb 1"

definition r2Cb :: "bool robot_state \<Rightarrow> mission \<Rightarrow> error option \<times> mission" where
  "r2Cb = rCb 2"

definition r3Cb :: "bool robot_state \<Rightarrow> mission \<Rightarrow> error option \<times> mission" where
  "r3Cb = rCb 3"

definition r4Cb :: "bool robot_state \<Rightarrow> mission \<Rightarrow> error option \<times> mission" where
  "r4Cb = rCb 4"

definition set_start_posCb :: "mission \<Rightarrow> mission" where
  "set_start_posCb s = s\<lparr>P := current_P s, P_is_set := True\<rparr>"

text \<open>\<open>shape\<close> is the value of \<open>rospy.get_param("shape")\<close> at the time of the call.\<close>

definition set_desired_formation :: "matrix \<Rightarrow> mission \<Rightarrow> mission" where
  "set_desired_formation shape s = s\<lparr>S_array := shape, S_is_set := True\<rparr>"

text \<open>
  In \<open>startCb\<close> the condition reads \<open>self.valid_S and valid_P\<close>.  The second operand
  is a bare name; the function never assigns it and the module defines no global of
  that name, so evaluating it raises \<open>NameError\<close>.  Python evaluates it only when
  \<open>self.valid_S\<close> is true.
\<close>

definition global_valid_P :: "error + bool" where
  "global_valid_P = Inl NameError"

text \<open>
  \<open>startCb\<close>.  Were \<open>compute_assignment\<close> to raise, the state at the raise is taken
  to be the one before the call; with \<open>global_valid_P\<close> as it is, that branch is never
  reached.
\<close>

definition startCb :: "solver \<Rightarrow> real \<Rightarrow> matrix \<Rightarrow> mission \<Rightarrow> error option \<times> mission \<times> effect list" where
  "startCb lapjv now shape s =
     (if M_START s then (None, s, [LogWarn ''Mission already started!''])
      else
        (case validate_positions (set_desired_formation shape (set_start_posCb s)) of
           (Some e, s1, out) \<Rightarrow> (Some e, s1, out)
         | (None, s1, out) \<Rightarrow>
             (case (if valid_S s1 then global_valid_P else Inr False) of
                Inl e \<Rightarrow> (Some e, s1, out)
              | Inr False \<Rightarrow> (None, s1, out)
              | Inr True \<Rightarrow>
                  (case compute_assignment lapjv now s1 of
                     Inl e \<Rightarrow> (Some e, s1, out)
                   | Inr (s2, out2) \<Rightarrow> (None, s2\<lparr>M_START := True\<rparr>, out @ out2)))))"

definition landCb :: "mission \<Rightarrow> mission" where
  "landCb s = s\<lparr>M_START := False, P_is_set := False, S_is_set := False, G_is_set := False\<rparr>"

definition holdCb :: "mission \<Rightarrow> mission" where
  "holdCb s = s\<lparr>M_START := False, P_is_set := False, S_is_set := False, G_is_set := False\<rparr>"

definition isFormationComplete :: "mission \<Rightarrow> mission \<times> bool" where
  "isFormationComplete s =
     (let s1 = s\<lparr>formation_completed := py_all (arrival_state s)\<rparr>
      in (s1, formation_completed s1))"

subsection \<open>The control loop\<close>

text \<open>One pass through the body of the \<open>while\<close> loop of \<open>main\<close>.\<close>

definition tick :: "mission \<Rightarrow> mission \<times> effect list" where
  "tick s =
     (let (s1, out) =
            (if M_START s then
               (s\<lparr>M_END := False\<rparr>,
                if \<not> py_all (received_goals s) then [PublishFormation (goals_msg s)]
                else [PublishGo])
             else (s, []));
          (s2, complete) = isFormationComplete s1
      in if complete then
           (s2\<lparr>M_END := True, M_START := False, P_is_set := False, S_is_set := False,
               G_is_set := False\<rparr>, out)
         else (s2, out))"

text \<open>
  What the node reacts to: a pass of the control loop, a message on \<open>/start\<close> (with
  the clock and the \<open>shape\<close> parameter read during the call), on \<open>/land\<close>, on \<open>/hold\<close>,
  or a state message of robot \<open>0\<close> to \<open>4\<close>, the five that \<open>main\<close> subscribes to.  A
  callback that raises leaves the state as it is at the raise, and the node goes on.
\<close>

datatype event = Tick | Start real matrix | Land | Hold | Robot nat "bool robot_state"

definition robot_callbacks :: "(bool robot_state \<Rightarrow> mission \<Rightarrow> error option \<times> mission) list" where
  "robot_callbacks = [r0Cb, r1Cb, r2Cb, r3Cb, r4Cb]"

fun step :: "solver \<Rightarrow> event \<Rightarrow> mission \<Rightarrow> mission" where
  "step lapjv Tick s = fst (tick s)"
| "step lapjv (Start now shape) s = fst (snd (startCb lapjv now shape s))"
| "step lapjv Land s = landCb s"
| "step lapjv Hold s = holdCb s"
| "step lapjv (Robot i msg) s =
     (if i < length robot_callbacks then snd ((robot_callbacks ! i) msg s) else s)"

fun exec :: "solver \<Rightarrow> event list \<Rightarrow> mission \<Rightarrow> mission" where
  "exec lapjv [] s = s"
| "exec lapjv (e # es) s = exec lapjv es (step lapjv e s)"

section \<open>The MAVLink bridge (\<open>scripts/master_mavlink_bridge.py\<close>)\<close>

subsection \<open>Messages\<close>

text \<open>
  What \<open>recvCb\<close> reads of a received MAVLink message: \<open>get_type()\<close>,
  \<open>get_srcSystem()\<close>, and the fields \<open>target_system\<close>, \<open>command\<close> and \<open>param1\<close> to
  \<open>param7\<close>.  \<open>command\<close> and the parameters are read only of a message of type
  \<open>COMMAND_LONG\<close>, which has them.  \<open>target_system\<close> is read of every message, before
  its type is looked at; a message of a type without that field (\<open>HEARTBEAT\<close>,
  \<open>BAD_DATA\<close>) has \<open>None\<close> here, and reading the attribute raises \<open>AttributeError\<close>.
\<close>

record mav_msg =
  msg_type :: string
  srcSystem :: int
  target_system :: "int option"
  command :: int
  param1 :: real
  param2 :: real
  param3 :: real
  param4 :: real
  param5 :: real
  param6 :: real
  param7 :: real

text \<open>The arguments of one \<open>command_long_send\<close>.\<close>

record command_long =
  tgt_sys :: int
  tgt_comp_id :: int
  cmd :: int
  confirmation :: int
  p1 :: real
  p2 :: real
  p3 :: real
  p4 :: real
  p5 :: real
  p6 :: real
  p7 :: real

text \<open>What the bridge sends out: a warning of the log, a state message on the topic
  of a robot, a command on the link.\<close>

datatype bridge_effect =
  BridgeWarn string
| PublishState nat "real robot_state"
| CommandLongSend command_long

text \<open>The fields of class \<open>MasterBridge\<close> that the receiver and the goal dispatcher read.\<close>

record master_bridge =
  DEBUG :: bool
  bridge_n :: int
  master_sys_id :: int

text \<open>\<open>mavutil.mavlink.MAV_CMD_USER_1\<close>, a constant of the MAVLink common dialect.\<close>

definition MAV_CMD_USER_1 :: int where
  "MAV_CMD_USER_1 = 31010"

definition ROBOT_STATE :: real where
  "ROBOT_STATE = 1"

definition MASTER_CMD :: real where
  "MASTER_CMD = 2"

definition MASTER_CMD_GOAL :: real where
  "MASTER_CMD_GOAL = 14"

definition MASTER_CMD_ACK :: real where
  "MASTER_CMD_ACK = 16"

definition CMD_STRING :: "real \<rightharpoonup> string" where
  "CMD_STRING =
     map_of [(3, ''MASTER_CMD_ARM''), (4, ''MASTER_CMD_TKO''), (5, ''MASTER_CMD_LAND''),
       (6, ''MASTER_CMD_POSCTL''), (7, ''MASTER_CMD_HOLD''), (8, ''MASTER_CMD_SHUTDOWN''),
       (9, ''MASTER_CMD_REBOOT''), (10, ''MASTER_CMD_SET_ORIGIN''),
       (11, ''MASTER_CMD_SET_EAST''), (12, ''MASTER_CMD_SET_nROBOTS''),
       (13, ''MASTER_CMD_GO''), (14, ''MASTER_CMD_GOAL''), (15, ''MASTER_CMD_SET_TOALT'')]"

text \<open>
  \<open>robot_state_pub_list\<close>: one publisher for each \<open>i\<close> in \<open>range(n)\<close>, the \<open>i\<close>-th on
  the topic of robot \<open>i\<close>.  A publisher is identified by the robot it publishes for.
\<close>

definition robot_state_pub_list :: "master_bridge \<Rightarrow> nat list" where
  "robot_state_pub_list b = [0..<nat (bridge_n b)]"

subsection \<open>The receiver\<close>

text \<open>
  One pass through the body of the \<open>while\<close> loop of \<open>recvCb\<close>, for the result \<open>m\<close> of
  \<open>recv_match\<close>; \<open>now\<close> is the value of \<open>rospy.Time.now()\<close>.  The three reads
  \<open>msg.get_type()\<close>, \<open>msg.get_srcSystem()\<close> and \<open>msg.target_system\<close> come first; an
  exception leaves the loop, and with it the receiver.
\<close>

definition recvCb :: "master_bridge \<Rightarrow> real \<Rightarrow> mav_msg option \<Rightarrow> error option \<times> bridge_effect list" where
  "recvCb b now m =
     (case m of
        None \<Rightarrow> (None, [])
      | Some msg \<Rightarrow>
     (case target_system msg of
        None \<Rightarrow> (Some AttributeError, [])
      | Some msg_tgt \<Rightarrow>
          if msg_type msg = ''COMMAND_LONG'' \<and> srcSystem msg > 0 \<and> srcSystem msg \<le> bridge_n b
             \<and> command msg = MAV_CMD_USER_1 \<and> msg_tgt = master_sys_id b
          then
            (case (if param1 msg = ROBOT_STATE then
                     (case py_get (robot_state_pub_list b) (srcSystem msg - 1) of
                        Inl e \<Rightarrow> Inl e
                      | Inr pub \<Rightarrow>
                          Inr ((if DEBUG b
                                then [BridgeWarn ''[Master]: Received ROBOT_STATE from Robot %s'']
                                else [])
                               @ [PublishState pub
                                    \<lparr> stamp = now, received_goal = param2 msg,
                                      mission_started = param3 msg, arrived = param4 msg,
                                      point = Point (param5 msg) (param6 msg) (param7 msg) \<rparr>]))
                   else Inr []) of
               Inl e \<Rightarrow> (Some e, [])
             | Inr out \<Rightarrow>
                 if param1 msg = MASTER_CMD_ACK then
                   (case CMD_STRING (param2 msg) of
                      None \<Rightarrow> (Some KeyError, out)
                    | Some name \<Rightarrow>
                        (None, out @ [BridgeWarn ''[Master]: Got acknowledgment of %s from robot %s'']))
                 else (None, out))
          else
            (None,
             if DEBUG b
             then [BridgeWarn ''Received unexpected MAVLink msg of type: %s from MAVLink ID = %s'']
             else [])))"

subsection \<open>The goal dispatcher\<close>

text \<open>The loop \<open>for i in range(self.n)\<close> of \<open>formationCb\<close>, over the indices still to
  visit.  Reading \<open>msg.goals[i]\<close> out of range raises before anything is sent for \<open>i\<close>.\<close>

fun formation_loop :: "master_bridge \<Rightarrow> formation_positions \<Rightarrow> nat list \<Rightarrow> error option \<times> bridge_effect list" where
  "formation_loop b msg [] = (None, [])"
| "formation_loop b msg (i # is) =
     (case py_get (goals msg) (int i) of
        Inl e \<Rightarrow> (Some e, [])
      | Inr (Point gx gy gz) \<Rightarrow>
          (let sent =
                 CommandLongSend
                   \<lparr> tgt_sys = int i + 1, tgt_comp_id = 0, cmd = MAV_CMD_USER_1,
                     confirmation = 0, p1 = MASTER_CMD, p2 = MASTER_CMD_GOAL,
                     p3 = gx, p4 = gy, p5 = gz, p6 = tf msg, p7 = 0 \<rparr>
                 # (if DEBUG b then [BridgeWarn ''[Master]: Sent formation goal to Robot %s'']
                    else []);
               (e, rest) = formation_loop b msg is
           in (e, sent @ rest)))"

definition formationCb :: "master_bridge \<Rightarrow> formation_positions \<Rightarrow> error option \<times> bridge_effect list" where
  "formationCb b msg = formation_loop b msg [0..<nat (bridge_n b)]"

text \<open>The commands among the effects, in the order they were sent.\<close>

fun sent_commands :: "bridge_effect list \<Rightarrow> command_long list" where
  "sent_commands [] = []"
| "sent_commands (CommandLongSend c # es) = c # sent_commands es"
| "sent_commands (_ # es) = sent_commands es"

section \<open>Notions used to state the properties\<close>

text \<open>
  Some pair of distinct rows among the first \<open>m\<close> rows of \<open>M\<close> is at distance at most
  \<open>d\<close>: the configuration that the specification calls too close.
\<close>

definition too_close :: "matrix \<Rightarrow> real \<Rightarrow> nat \<Rightarrow> bool" where
  "too_close M d m = (\<exists>i<m. \<exists>j<m. i \<noteq> j \<and> np_norm (vsub (M ! i) (M ! j)) \<le> d)"

text \<open>The time robot \<open>i\<close> needs from its start position to the slot \<open>xs ! i\<close> at speed
  \<open>vmax\<close>.\<close>

definition travel :: "mission \<Rightarrow> int list \<Rightarrow> nat \<Rightarrow> real" where
  "travel s xs i = np_norm (vsub (P s ! i) (S_array s ! nat (xs ! i))) / vmax s"

text \<open>The point made of the three entries of a row.\<close>

definition as_point :: "vec \<Rightarrow> point" where
  "as_point g = Point (g ! 0) (g ! 1) (g ! 2)"

text \<open>The state after one pass of the assignment loop for robot \<open>i\<close>.\<close>

definition assigned :: "mission \<Rightarrow> int list \<Rightarrow> nat \<Rightarrow> mission" where
  "assigned s xs i =
     s\<lparr>G := (G s)[i := S_array s ! nat (xs ! i)],
       goals_msg := (goals_msg s)\<lparr>goals :=
         (goals (goals_msg s))[i := as_point (S_array s ! nat (xs ! i))]\<rparr>\<rparr>"

text \<open>The command that carries the goal of robot \<open>i\<close>.\<close>

definition goal_command :: "formation_positions \<Rightarrow> nat \<Rightarrow> command_long" where
  "goal_command msg i =
     (case goals msg ! i of Point gx gy gz \<Rightarrow>
        \<lparr> tgt_sys = int i + 1, tgt_comp_id = 0, cmd = MAV_CMD_USER_1,
          confirmation = 0, p1 = MASTER_CMD, p2 = MASTER_CMD_GOAL,
          p3 = gx, p4 = gy, p5 = gz, p6 = tf msg, p7 = 0 \<rparr>)"

text \<open>A state report addressed to the ground station, whatever its source.\<close>

definition state_report :: "master_bridge \<Rightarrow> mav_msg \<Rightarrow> bool" where
  "state_report b rep = (msg_type rep = ''COMMAND_LONG'' \<and> command rep = MAV_CMD_USER_1
      \<and> target_system rep = Some (master_sys_id b) \<and> param1 rep = ROBOT_STATE)"

text \<open>The state record read off the parameters 2 to 7 of a message.\<close>

definition state_of :: "real \<Rightarrow> mav_msg \<Rightarrow> real robot_state" where
  "state_of now msg = \<lparr> stamp = now, received_goal = param2 msg, mission_started = param3 msg,
     arrived = param4 msg, point = Point (param5 msg) (param6 msg) (param7 msg) \<rparr>"

section \<open>Example inputs\<close>

text \<open>A solver that always raises, and one that always answers the identity assignment.\<close>

definition no_solver :: solver where
  "no_solver cost = Inl ValueError"

text \<open>A solver that answers one cost matrix only and raises on every other.\<close>

definition probe_solver :: solver where
  "probe_solver cost =
     (if cost = [[0, 0], [0, - 9]] then Inr (- 9, [0, 1], [0, 1]) else Inl KeyError)"

definition identity_solver :: solver where
  "identity_solver cost = Inr (0, map int [0..<length cost], map int [0..<length cost])"

text \<open>Two robots three metres apart, two slots three metres apart and four metres
  north of the robots, two slots on top of each other.\<close>

definition spread :: matrix where
  "spread = [[0, 0, 0], [3, 0, 0]]"

definition targets :: matrix where
  "targets = [[0, 4, 0], [3, 4, 0]]"

definition stacked :: matrix where
  "stacked = [[0, 0, 0], [0, 0, 0]]"

text \<open>Robots or slots in a row, three metres from one to the next; and five slots of
  which the first two coincide.\<close>

definition line_up :: "nat \<Rightarrow> matrix" where
  "line_up m = map (\<lambda>i. [3 * real i, 0, 0]) [0..<m]"

definition stacked5 :: matrix where
  "stacked5 = [[0, 0, 0], [0, 0, 0], [6, 0, 0], [9, 0, 0], [12, 0, 0]]"

definition swap01 :: "nat \<Rightarrow> nat" where
  "swap01 i = (if i = 0 then 1 else if i = 1 then 0 else i)"

text \<open>A mission of two robots whose start positions have been taken.\<close>

definition lined_up :: mission where
  "lined_up = (init 2 (1/2) 1 targets)\<lparr>P := spread\<rparr>"

text \<open>A mission of five robots that has been started.\<close>

definition under_way :: mission where
  "under_way = (init 5 (1/2) 1 (line_up 5))\<lparr>M_START := True\<rparr>"

text \<open>A state message of a robot, and the five robots reporting their arrival.\<close>

definition robot_msg :: "bool \<Rightarrow> bool robot_state" where
  "robot_msg a = \<lparr> stamp = 0, received_goal = True, mission_started = True, arrived = a,
      point = Point 0 0 0 \<rparr>"

definition all_arrive :: "event list" where
  "all_arrive = [Robot 0 (robot_msg True), Robot 1 (robot_msg True), Robot 2 (robot_msg True),
      Robot 3 (robot_msg True), Robot 4 (robot_msg True)]"

text \<open>A bridge for five robots, a state report from a wire address, a heartbeat of
  robot 3 (a message type without a target), and the goals of five robots.\<close>

definition ground_station :: master_bridge where
  "ground_station = \<lparr> DEBUG = False, bridge_n = 5, master_sys_id = 255 \<rparr>"

definition report_from :: "int \<Rightarrow> mav_msg" where
  "report_from src = \<lparr> msg_type = ''COMMAND_LONG'', srcSystem = src,
      target_system = Some 255,
      command = 31010, param1 = 1, param2 = 1, param3 = 0, param4 = 0, param5 = 7, param6 = 8,
      param7 = 9 \<rparr>"

definition heartbeat :: mav_msg where
  "heartbeat = \<lparr> msg_type = ''HEARTBEAT'', srcSystem = 3, target_system = None,
      command = 0, param1 = 0, param2 = 0, param3 = 0, param4 = 0, param5 = 0, param6 = 0,
      param7 = 0 \<rparr>"

definition five_goals :: formation_positions where
  "five_goals = \<lparr> goals = [Point 0 0 1, Point 1 0 1, Point 2 0 1, Point 3 0 1, Point 4 0 1],
      tf = 6, header_stamp = 0 \<rparr>"

section \<open>Basic facts\<close>

lemma py_get_nat: "i < length xs \<Longrightarrow> py_get xs (int i) = Inr (xs ! i)"
  by (simp add: py_get_def)

lemma py_get_nonneg: "0 \<le> k \<Longrightarrow> nat k < length xs \<Longrightarrow> py_get xs k = Inr (xs ! nat k)"
  by (simp add: py_get_def)

lemma py_all_iff: "py_all bs = (\<forall>i<length bs. bs ! i)"
  by (simp add: py_all_def list_all_length)

lemma np_norm_nonneg: "0 \<le> np_norm v"
proof -
  have "0 \<le> sum_list (map (\<lambda>a. a * a) v)" by (rule sum_list_nonneg) auto
  then show ?thesis by (simp add: np_norm_def)
qed

lemma np_norm_axis: "np_norm (vsub [a, 0, 0] [b, 0, 0]) = \<bar>a - b\<bar>"
  by (simp add: np_norm_def vsub_def)

lemma np_norm_up: "np_norm (vsub [a, b, 0] [a, c, 0]) = \<bar>b - c\<bar>"
  by (simp add: np_norm_def vsub_def)

lemma upt2: "[0..<2] = [0, 1::nat]"
  by (simp add: upt_rec[of 0] upt_rec[of 1] eval_nat_numeral)

lemma delta_init: "delta (init m r v shape) = 2 * sqrt 2 * r"
  by (simp add: init_def powr_half_sqrt)

lemma init_fields:
  "\<not> M_START (init m r v shape)" "\<not> M_END (init m r v shape)"
  "\<not> P_is_set (init m r v shape)" "n (init m r v shape) = m"
  "length (current_P (init m r v shape)) = m"
  by (simp_all add: init_def)

lemma exec_append: "exec lapjv (es @ fs) s = exec lapjv fs (exec lapjv es s)"
  by (induction es arbitrary: s) simp_all

section \<open>Validation\<close>

lemma validate_inner_spec:
  assumes "i < length M" "\<forall>j\<in>set js. j < length M"
  shows "\<exists>r. validate_inner M d i js = Inr r \<and>
           (r = None) = (\<not> (\<exists>j\<in>set js. i \<noteq> j \<and> np_norm (vsub (M ! i) (M ! j)) \<le> d))"
  using assms
  by (induction js) (auto simp add: py_get_nat)

lemma validate_outer_spec:
  assumes "\<forall>i\<in>set is. i < length M" "m \<le> length M"
  shows "\<exists>r. validate_outer M d m is = Inr r \<and>
           (r = None) = (\<not> (\<exists>i\<in>set is. \<exists>j<m. i \<noteq> j \<and> np_norm (vsub (M ! i) (M ! j)) \<le> d))"
  using assms
proof (induction "is")
  case Nil
  then show ?case by simp
next
  case (Cons i "is")
  have a: "i < length M" and b: "\<forall>j\<in>set [0..<m]. j < length M"
    using Cons.prems by auto
  obtain r where r: "validate_inner M d i [0..<m] = Inr r"
    "(r = None) = (\<not> (\<exists>j\<in>set [0..<m]. i \<noteq> j \<and> np_norm (vsub (M ! i) (M ! j)) \<le> d))"
    using validate_inner_spec[OF a b] by blast
  show ?case
  proof (cases r)
    case None
    with r Cons show ?thesis by auto
  next
    case (Some j)
    with r show ?thesis by auto
  qed
qed

lemma validate_outer_too_close:
  assumes "m \<le> length M"
  shows "\<exists>r. validate_outer M d m [0..<m] = Inr r \<and> (r = None) = (\<not> too_close M d m)"
proof -
  have a: "\<forall>i\<in>set [0..<m]. i < length M" using assms by auto
  have b: "(\<exists>i\<in>set [0..<m]. \<exists>j<m. i \<noteq> j \<and> np_norm (vsub (M ! i) (M ! j)) \<le> d)
             = too_close M d m"
    unfolding too_close_def by (simp add: Bex_def)
  show ?thesis
    using validate_outer_spec[OF a assms, of d] unfolding b .
qed

lemma validate_positions_eq:
  assumes "n s \<le> length (P s)" "n s \<le> length (S_array s)"
  shows "validate_positions s =
     (None,
      s\<lparr>valid_P := \<not> too_close (P s) (delta s) (n s),
        valid_S := \<not> too_close (S_array s) (delta s) (n s)\<rparr>,
      (if too_close (P s) (delta s) (n s)
       then [LogWarn ''Robots %s and %s are not well seperated''] else [])
      @ (if too_close (S_array s) (delta s) (n s)
         then [LogWarn ''Goals %s and %s are not well seperated''] else []))"
proof -
  obtain rP where rP: "validate_outer (P s) (delta s) (n s) [0..<n s] = Inr rP"
     "(rP = None) = (\<not> too_close (P s) (delta s) (n s))"
    using validate_outer_too_close[OF assms(1)] by blast
  obtain rS where rS: "validate_outer (S_array s) (delta s) (n s) [0..<n s] = Inr rS"
     "(rS = None) = (\<not> too_close (S_array s) (delta s) (n s))"
    using validate_outer_too_close[OF assms(2)] by blast
  show ?thesis
    using rP rS by (cases rP; cases rS) (simp_all add: validate_positions_def)
qed

lemma too_close_perm:
  assumes "bij_betw f {..<m} {..<m}"
  shows "too_close (map (\<lambda>i. M ! f i) [0..<m]) d m = too_close M d m"
proof
  assume "too_close (map (\<lambda>i. M ! f i) [0..<m]) d m"
  then obtain i j where ij: "i < m" "j < m" "i \<noteq> j" "np_norm (vsub (M ! f i) (M ! f j)) \<le> d"
    by (auto simp add: too_close_def)
  have "f i < m" "f j < m" using assms ij by (auto simp add: bij_betw_def)
  moreover have "f i \<noteq> f j" using assms ij by (auto simp add: bij_betw_def inj_on_def)
  ultimately show "too_close M d m" using ij unfolding too_close_def by blast
next
  assume "too_close M d m"
  then obtain i j where ij: "i < m" "j < m" "i \<noteq> j" "np_norm (vsub (M ! i) (M ! j)) \<le> d"
    by (auto simp add: too_close_def)
  have "i \<in> f ` {..<m}" "j \<in> f ` {..<m}"
    using assms ij by (simp_all add: bij_betw_def)
  then obtain i' j' where i': "i' < m" "f i' = i" and j': "j' < m" "f j' = j"
    by auto
  have "i' \<noteq> j'" using i' j' ij by auto
  moreover have "np_norm (vsub (map (\<lambda>i. M ! f i) [0..<m] ! i') (map (\<lambda>i. M ! f i) [0..<m] ! j')) \<le> d"
    using i' j' ij by simp
  ultimately show "too_close (map (\<lambda>i. M ! f i) [0..<m]) d m"
    using i'(1) j'(1) unfolding too_close_def by blast
qed

lemma bij_swap01: "bij_betw swap01 {..<2} {..<2}"
  unfolding bij_betw_def inj_on_def swap01_def
  by (auto simp add: less_Suc_eq eval_nat_numeral image_iff)

lemma not_too_close_spread: "\<not> too_close spread (2 * sqrt 2 * (1/2)) 2"
proof -
  have "sqrt 2 < (3::real)" by (rule real_less_lsqrt) simp_all
  have far: "\<not> np_norm (vsub (spread ! i) (spread ! j)) \<le> sqrt 2"
    if "i < 2" "j < 2" "i \<noteq> j" for i j :: nat
  proof -
    from that consider "i = 0 \<and> j = 1" | "i = 1 \<and> j = 0" by linarith
    then show ?thesis
      using \<open>sqrt 2 < 3\<close> by cases (simp_all add: spread_def np_norm_axis)
  qed
  show ?thesis
    unfolding too_close_def using far by auto
qed

lemma too_close_stacked: "too_close stacked (2 * sqrt 2 * (1/2)) 2"
  unfolding too_close_def stacked_def
  by (rule exI[of _ 0], simp, rule exI[of _ 1], simp add: np_norm_def vsub_def)

lemma not_too_close_line_up: "\<not> too_close (line_up m) (2 * sqrt 2 * (1/2)) m"
proof -
  have s: "sqrt 2 < (3::real)" by (rule real_less_lsqrt) simp_all
  have far: "\<not> np_norm (vsub (line_up m ! i) (line_up m ! j)) \<le> sqrt 2"
    if "i < m" "j < m" "i \<noteq> j" for i j :: nat
  proof -
    have "np_norm (vsub (line_up m ! i) (line_up m ! j)) = \<bar>3 * real i - 3 * real j\<bar>"
      using that by (simp add: line_up_def np_norm_axis)
    moreover have "3 \<le> \<bar>3 * real i - 3 * real j\<bar>"
    proof (cases "i < j")
      case True
      then have "real i + 1 \<le> real j" by linarith
      then show ?thesis by linarith
    next
      case False
      with that have "real j + 1 \<le> real i" by linarith
      then show ?thesis by linarith
    qed
    ultimately show ?thesis using s by linarith
  qed
  show ?thesis
    unfolding too_close_def using far by auto
qed

lemma too_close_stacked5: "too_close stacked5 (2 * sqrt 2 * (1/2)) 5"
  unfolding too_close_def stacked5_def
  by (rule exI[of _ 0], simp, rule exI[of _ 1], simp add: np_norm_def vsub_def)

text \<open>
  C5: with the threshold \<open>delta = 2 * sqrt 2 * R\<close> set by the constructor, validation
  of a state whose \<open>P\<close> and \<open>S_array\<close> have \<open>n\<close> rows raises nothing and leaves
  \<open>valid_P\<close> (\<open>valid_S\<close>) true exactly if no two distinct rows of \<open>P\<close> (of \<open>S_array\<close>)
  are at distance at most \<open>delta\<close>; so the configuration is marked invalid if and only
  if some pair \<open>i \<noteq> j\<close> has \<open>\<parallel>P[i] - P[j]\<parallel> \<le> delta\<close> or \<open>\<parallel>S[i] - S[j]\<parallel> \<le> delta\<close> (a
  pair at distance exactly \<open>delta\<close> is rejected, a pair strictly farther is accepted),
  and the verdict does not change when the rows of \<open>P\<close> are permuted.
\<close>

theorem validation_rejects_iff_too_close:
  assumes "length (P s) = n s" "length (S_array s) = n s"
  shows "fst (validate_positions s) = None
    \<and> valid_P (fst (snd (validate_positions s))) = (\<not> too_close (P s) (delta s) (n s))
    \<and> valid_S (fst (snd (validate_positions s))) = (\<not> too_close (S_array s) (delta s) (n s))
    \<and> (\<not> (valid_P (fst (snd (validate_positions s))) \<and> valid_S (fst (snd (validate_positions s)))))
        = (\<exists>i<n s. \<exists>j<n s. i \<noteq> j \<and>
             (np_norm (vsub (P s ! i) (P s ! j)) \<le> delta s
              \<or> np_norm (vsub (S_array s ! i) (S_array s ! j)) \<le> delta s))
    \<and> (bij_betw f {..<n s} {..<n s} \<longrightarrow>
          valid_P (fst (snd (validate_positions (s\<lparr>P := map (\<lambda>i. P s ! f i) [0..<n s]\<rparr>))))
            = valid_P (fst (snd (validate_positions s)))
          \<and> valid_S (fst (snd (validate_positions (s\<lparr>P := map (\<lambda>i. P s ! f i) [0..<n s]\<rparr>))))
            = valid_S (fst (snd (validate_positions s))))
    \<and> delta (init m r v shape) = 2 * sqrt 2 * r"
proof -
  have a: "n s \<le> length (P s)" "n s \<le> length (S_array s)" using assms by simp_all
  let ?s' = "s\<lparr>P := map (\<lambda>i. P s ! f i) [0..<n s]\<rparr>"
  have b: "n ?s' \<le> length (P ?s')" "n ?s' \<le> length (S_array ?s')" using assms by simp_all
  have c: "(\<not> (\<not> too_close (P s) (delta s) (n s) \<and> \<not> too_close (S_array s) (delta s) (n s)))
        = (\<exists>i<n s. \<exists>j<n s. i \<noteq> j \<and>
             (np_norm (vsub (P s ! i) (P s ! j)) \<le> delta s
              \<or> np_norm (vsub (S_array s ! i) (S_array s ! j)) \<le> delta s))"
    unfolding too_close_def by blast
  show ?thesis
    unfolding validate_positions_eq[OF a] validate_positions_eq[OF b]
    using c by (simp add: too_close_perm delta_init)
qed

theorem validation_rejects_iff_too_close_witness:
  "length (P lined_up) = n lined_up \<and> length (S_array lined_up) = n lined_up
   \<and> bij_betw swap01 {..<2} {..<2}
   \<and> valid_P (fst (snd (validate_positions lined_up)))
   \<and> valid_S (fst (snd (validate_positions lined_up)))
   \<and> valid_P (fst (snd (validate_positions (lined_up\<lparr>P := [[3, 0, 0], [0, 0, 0]]\<rparr>))))
   \<and> \<not> valid_S (fst (snd (validate_positions (lined_up\<lparr>S_array := stacked\<rparr>))))"
proof -
  have a: "length (P lined_up) = n lined_up" "length (S_array lined_up) = n lined_up"
    by (simp_all add: lined_up_def init_def spread_def targets_def)
  have a': "length (P (lined_up\<lparr>S_array := stacked\<rparr>)) = n (lined_up\<lparr>S_array := stacked\<rparr>)"
    "length (S_array (lined_up\<lparr>S_array := stacked\<rparr>)) = n (lined_up\<lparr>S_array := stacked\<rparr>)"
    by (simp_all add: lined_up_def init_def spread_def stacked_def)
  have d: "delta lined_up = 2 * sqrt 2 * (1/2)" "n lined_up = 2" "P lined_up = spread"
    "S_array lined_up = targets"
    by (simp_all add: lined_up_def init_def powr_half_sqrt)
  have e: "map (\<lambda>i. spread ! swap01 i) [0..<2] = [[3, 0, 0], [0, 0, 0]]"
    by (simp add: spread_def swap01_def upt2)
  have "sqrt 2 < (3::real)" by (rule real_less_lsqrt) simp_all
  have far: "\<not> np_norm (vsub (targets ! i) (targets ! j)) \<le> sqrt 2"
    if "i < 2" "j < 2" "i \<noteq> j" for i j :: nat
  proof -
    from that consider "i = 0 \<and> j = 1" | "i = 1 \<and> j = 0" by linarith
    then show ?thesis
      using \<open>sqrt 2 < 3\<close> by cases (simp_all add: targets_def np_norm_def vsub_def)
  qed
  have t: "\<not> too_close targets (2 * sqrt 2 * (1/2)) 2"
    unfolding too_close_def using far by auto
  show ?thesis
    using validation_rejects_iff_too_close[OF a, of swap01]
      validation_rejects_iff_too_close[OF a', of swap01]
      a bij_swap01 not_too_close_spread too_close_stacked t
    by (simp add: d e)
qed

section \<open>The start command\<close>

lemma startCb_invalid_shape:
  assumes "\<not> M_START s" "n s \<le> length (current_P s)" "n s \<le> length shape"
      "too_close shape (delta s) (n s)"
  shows "startCb lapjv now shape s =
     (None,
      s\<lparr>P := current_P s, P_is_set := True, S_array := shape, S_is_set := True,
        valid_P := \<not> too_close (current_P s) (delta s) (n s), valid_S := False\<rparr>,
      (if too_close (current_P s) (delta s) (n s)
       then [LogWarn ''Robots %s and %s are not well seperated''] else [])
      @ [LogWarn ''Goals %s and %s are not well seperated''])"
  using assms
  by (simp add: startCb_def validate_positions_eq set_desired_formation_def set_start_posCb_def)

lemma startCb_valid_shape:
  assumes "\<not> M_START s" "n s \<le> length (current_P s)" "n s \<le> length shape"
      "\<not> too_close shape (delta s) (n s)"
  shows "startCb lapjv now shape s =
     (Some NameError,
      s\<lparr>P := current_P s, P_is_set := True, S_array := shape, S_is_set := True,
        valid_P := \<not> too_close (current_P s) (delta s) (n s), valid_S := True\<rparr>,
      (if too_close (current_P s) (delta s) (n s)
       then [LogWarn ''Robots %s and %s are not well seperated''] else []))"
  using assms
  by (simp add: startCb_def validate_positions_eq set_desired_formation_def set_start_posCb_def
      global_valid_P_def)

text \<open>
  With a shape whose slots are far enough apart the condition of \<open>startCb\<close> goes on
  to the bare name \<open>valid_P\<close>: right after construction, when all five robots are
  still registered at the origin, the start command raises \<open>NameError\<close>.
\<close>

lemma startCb_raises_example:
  "fst (startCb no_solver 0 (line_up 5) (init 5 (1/2) 1 (line_up 5))) = Some NameError"
proof -
  let ?s = "init 5 (1/2) 1 (line_up 5)"
  have "\<not> too_close (line_up 5) (delta ?s) (n ?s)"
    using not_too_close_line_up[of 5] by (simp add: init_fields delta_init)
  moreover have "\<not> M_START ?s" "n ?s \<le> length (current_P ?s)" "n ?s \<le> length (line_up 5)"
    by (simp_all add: init_fields line_up_def)
  ultimately show ?thesis
    by (simp add: startCb_valid_shape)
qed

text \<open>
  C3, as amended: in a state that is not started and whose \<open>current_P\<close> has \<open>n\<close>
  rows, a start command that loads a shape of \<open>n\<close> rows with two slots at distance at
  most \<open>delta\<close> raises nothing, logs the warning about the goals and does not start
  the mission: \<open>M_START\<close>, \<open>M_END\<close>, \<open>G_is_set\<close>, the goals, the goals message and the
  per-robot flags keep their values.  It is not a no-op: the start snapshot \<open>P\<close> is
  overwritten with the current positions, the shape is stored, \<open>P_is_set\<close> and
  \<open>S_is_set\<close> become true and the two validity flags are set to the verdict.
\<close>

theorem start_invalid_shape_refused:
  assumes "\<not> M_START s" "length (current_P s) = n s" "length shape = n s"
      "too_close shape (delta s) (n s)"
  shows "startCb lapjv now shape s =
     (None,
      s\<lparr>P := current_P s, P_is_set := True, S_array := shape, S_is_set := True,
        valid_P := \<not> too_close (current_P s) (delta s) (n s), valid_S := False\<rparr>,
      (if too_close (current_P s) (delta s) (n s)
       then [LogWarn ''Robots %s and %s are not well seperated''] else [])
      @ [LogWarn ''Goals %s and %s are not well seperated''])"
  using assms by (simp add: startCb_invalid_shape)

theorem start_invalid_shape_refused_witness:
  "\<not> M_START (init 5 (1/2) 1 stacked5) \<and> length (current_P (init 5 (1/2) 1 stacked5)) = n (init 5 (1/2) 1 stacked5)
   \<and> length stacked5 = n (init 5 (1/2) 1 stacked5)
   \<and> too_close stacked5 (delta (init 5 (1/2) 1 stacked5)) (n (init 5 (1/2) 1 stacked5))
   \<and> fst (startCb no_solver 0 stacked5 (init 5 (1/2) 1 stacked5)) = None
   \<and> \<not> M_START (fst (snd (startCb no_solver 0 stacked5 (init 5 (1/2) 1 stacked5))))
   \<and> LogWarn ''Goals %s and %s are not well seperated''
        \<in> set (snd (snd (startCb no_solver 0 stacked5 (init 5 (1/2) 1 stacked5))))"
proof -
  let ?s = "init 5 (1/2) 1 stacked5"
  have a: "\<not> M_START ?s" "length (current_P ?s) = n ?s" "length stacked5 = n ?s"
     "too_close stacked5 (delta ?s) (n ?s)"
    using too_close_stacked5 by (simp_all add: init_fields delta_init stacked5_def)
  show ?thesis
    using start_invalid_shape_refused[OF a, of no_solver 0] a by simp
qed

text \<open>
  C3 as stated fails: right after construction for five robots (nothing started, no
  flag set) a start command whose shape has two slots on top of each other is
  refused, yet \<open>P_is_set\<close> and \<open>S_is_set\<close> have become true and the state is no longer
  the one before the call.
\<close>

theorem start_invalid_not_noop:
  "\<not> M_START (init 5 (1/2) 1 stacked5)
   \<and> too_close stacked5 (delta (init 5 (1/2) 1 stacked5)) (n (init 5 (1/2) 1 stacked5))
   \<and> \<not> P_is_set (init 5 (1/2) 1 stacked5)
   \<and> fst (startCb no_solver 0 stacked5 (init 5 (1/2) 1 stacked5)) = None
   \<and> P_is_set (fst (snd (startCb no_solver 0 stacked5 (init 5 (1/2) 1 stacked5))))
   \<and> S_is_set (fst (snd (startCb no_solver 0 stacked5 (init 5 (1/2) 1 stacked5))))
   \<and> fst (snd (startCb no_solver 0 stacked5 (init 5 (1/2) 1 stacked5))) \<noteq> init 5 (1/2) 1 stacked5"
proof -
  let ?s = "init 5 (1/2) 1 stacked5"
  have a: "\<not> M_START ?s" "n ?s \<le> length (current_P ?s)" "n ?s \<le> length stacked5"
     "too_close stacked5 (delta ?s) (n ?s)"
    using too_close_stacked5 by (simp_all add: init_fields delta_init stacked5_def)
  have b: "P_is_set (fst (snd (startCb no_solver 0 stacked5 ?s)))"
     "S_is_set (fst (snd (startCb no_solver 0 stacked5 ?s)))"
     "fst (startCb no_solver 0 stacked5 ?s) = None"
    unfolding startCb_invalid_shape[OF a] by simp_all
  have c: "\<not> P_is_set ?s" by (simp add: init_fields)
  from b(1) c have "fst (snd (startCb no_solver 0 stacked5 ?s)) \<noteq> ?s" by metis
  with a b c show ?thesis by simp
qed

text \<open>
  C8: in a state that is already started, the start command only logs a warning; the
  whole mission state (the start snapshot, the goals, the goals message with its
  deadline and every flag) is returned unchanged and nothing is raised.
\<close>

theorem start_while_started_noop:
  "M_START s \<Longrightarrow>
     startCb lapjv now shape s = (None, s, [LogWarn ''Mission already started!''])"
  by (simp add: startCb_def)

theorem start_while_started_noop_witness:
  "M_START under_way
   \<and> startCb identity_solver 0 targets under_way
       = (None, under_way, [LogWarn ''Mission already started!''])"
  using start_while_started_noop[of under_way identity_solver 0 targets]
  by (simp add: under_way_def)

section \<open>The control loop\<close>

text \<open>
  C2: in a pass of the control loop that finds the mission started, the goals message
  is published if and only if some \<open>received_goals\<close> flag is false, the go signal if
  and only if all of them are true, and nothing else is sent; after the pass the
  mission is marked ended (\<open>M_END\<close> true, \<open>M_START\<close>, \<open>P_is_set\<close>, \<open>S_is_set\<close> and
  \<open>G_is_set\<close> false) if and only if every \<open>arrival_state\<close> flag is true.
\<close>

theorem tick_barrier:
  assumes "M_START s"
  shows "snd (tick s) =
           (if \<exists>i<length (received_goals s). \<not> received_goals s ! i
            then [PublishFormation (goals_msg s)] else [PublishGo])
    \<and> (PublishFormation (goals_msg s) \<in> set (snd (tick s)))
         = (\<exists>i<length (received_goals s). \<not> received_goals s ! i)
    \<and> (PublishGo \<in> set (snd (tick s))) = (\<forall>i<length (received_goals s). received_goals s ! i)
    \<and> (M_END (fst (tick s)) \<and> \<not> M_START (fst (tick s)) \<and> \<not> P_is_set (fst (tick s))
        \<and> \<not> S_is_set (fst (tick s)) \<and> \<not> G_is_set (fst (tick s)))
         = (\<forall>i<length (arrival_state s). arrival_state s ! i)
    \<and> M_END (fst (tick s)) = (\<forall>i<length (arrival_state s). arrival_state s ! i)
    \<and> M_START (fst (tick s)) = (\<exists>i<length (arrival_state s). \<not> arrival_state s ! i)"
  using assms
  by (auto simp add: tick_def isFormationComplete_def Let_def py_all_iff split: prod.splits)

theorem tick_barrier_witness:
  "M_START under_way
   \<and> snd (tick under_way) = [PublishFormation (goals_msg under_way)]
   \<and> \<not> M_END (fst (tick under_way)) \<and> M_START (fst (tick under_way))
   \<and> snd (tick (under_way\<lparr>received_goals := [True, True, True, True, True]\<rparr>)) = [PublishGo]"
proof -
  have a: "M_START under_way" "M_START (under_way\<lparr>received_goals := [True, True, True, True, True]\<rparr>)"
    by (simp_all add: under_way_def)
  have b: "\<exists>i<length (received_goals under_way). \<not> received_goals under_way ! i"
    by (rule exI[of _ 0]) (simp add: under_way_def init_def)
  have c: "\<exists>i<length (arrival_state under_way). \<not> arrival_state under_way ! i"
    by (rule exI[of _ 0]) (simp add: under_way_def init_def)
  have d: "\<forall>i<5. [True, True, True, True, True] ! i"
    by (simp add: less_Suc_eq eval_nat_numeral)
  show ?thesis
    using tick_barrier[OF a(1)] tick_barrier[OF a(2)] a b c d by simp
qed

text \<open>
  C10: \<open>landCb\<close> and \<open>holdCb\<close> do the same; they clear \<open>M_START\<close>, \<open>P_is_set\<close>,
  \<open>S_is_set\<close> and \<open>G_is_set\<close> and change no other field (putting the four flags back
  gives the state before the call), so the per-robot flags, \<open>M_END\<close>, the goals
  message and the position arrays keep their values.  If all arrival flags are true,
  the pass of the control loop that follows the command marks the mission ended,
  though it is not started and nothing is published.
\<close>

theorem land_hold_frame:
  "(landCb s)\<lparr>M_START := M_START s, P_is_set := P_is_set s, S_is_set := S_is_set s,
       G_is_set := G_is_set s\<rparr> = s
   \<and> holdCb s = landCb s
   \<and> \<not> M_START (landCb s) \<and> \<not> P_is_set (landCb s) \<and> \<not> S_is_set (landCb s)
   \<and> \<not> G_is_set (landCb s)
   \<and> arrival_state (landCb s) = arrival_state s \<and> received_goals (landCb s) = received_goals s
   \<and> M_END (landCb s) = M_END s \<and> goals_msg (landCb s) = goals_msg s
   \<and> P (landCb s) = P s \<and> G (landCb s) = G s \<and> S_array (landCb s) = S_array s
   \<and> current_P (landCb s) = current_P s
   \<and> ((\<forall>i<length (arrival_state s). arrival_state s ! i) \<longrightarrow>
        M_END (fst (tick (landCb s))) \<and> \<not> M_START (fst (tick (landCb s)))
        \<and> snd (tick (landCb s)) = []
        \<and> M_END (fst (tick (holdCb s))))"
  by (auto simp add: landCb_def holdCb_def tick_def isFormationComplete_def py_all_iff)

lemma all_arrive_state:
  "arrival_state (exec no_solver all_arrive (init 5 (1/2) 1 (line_up 5))) = [True, True, True, True, True]
   \<and> \<not> M_END (exec no_solver all_arrive (init 5 (1/2) 1 (line_up 5)))
   \<and> \<not> M_START (exec no_solver all_arrive (init 5 (1/2) 1 (line_up 5)))
   \<and> length (current_P (exec no_solver all_arrive (init 5 (1/2) 1 (line_up 5)))) = 5
   \<and> length (received_goals (exec no_solver all_arrive (init 5 (1/2) 1 (line_up 5)))) = 5"
  by (simp add: all_arrive_def init_def robot_callbacks_def r0Cb_def r1Cb_def r2Cb_def r3Cb_def
      r4Cb_def rCb_def robot_msg_def Let_def eval_nat_numeral)

theorem land_hold_frame_witness:
  "py_all (arrival_state (exec no_solver all_arrive (init 5 (1/2) 1 (line_up 5))))
   \<and> \<not> M_END (landCb (exec no_solver all_arrive (init 5 (1/2) 1 (line_up 5))))
   \<and> \<not> M_START (landCb (exec no_solver all_arrive (init 5 (1/2) 1 (line_up 5))))
   \<and> M_END (fst (tick (landCb (exec no_solver all_arrive (init 5 (1/2) 1 (line_up 5))))))"
proof -
  have "\<forall>i<5. [True, True, True, True, True] ! i"
    by (simp add: less_Suc_eq eval_nat_numeral)
  then show ?thesis
    using land_hold_frame[of "exec no_solver all_arrive (init 5 (1/2) 1 (line_up 5))"] all_arrive_state
    by (simp add: py_all_def)
qed

section \<open>Reachable states\<close>

lemma validate_positions_flags:
  "M_START (fst (snd (validate_positions s))) = M_START s \<and>
   M_END (fst (snd (validate_positions s))) = M_END s"
  by (auto simp add: validate_positions_def Let_def split: sum.splits option.splits)

lemma startCb_flags:
  "M_START (fst (snd (startCb lapjv now shape s))) = M_START s \<and>
   M_END (fst (snd (startCb lapjv now shape s))) = M_END s"
proof (cases "M_START s")
  case True
  then show ?thesis by (simp add: startCb_def)
next
  case False
  obtain eo s1 out where
    v: "validate_positions (set_desired_formation shape (set_start_posCb s)) = (eo, s1, out)"
    by (cases "validate_positions (set_desired_formation shape (set_start_posCb s))") auto
  have "M_START s1 = M_START s \<and> M_END s1 = M_END s"
    using validate_positions_flags[of "set_desired_formation shape (set_start_posCb s)"] v
    by (simp add: set_desired_formation_def set_start_posCb_def)
  then show ?thesis
    using False v by (cases eo) (simp_all add: startCb_def global_valid_P_def)
qed

lemma rCb_flags:
  "M_START (snd (rCb i msg s)) = M_START s \<and> M_END (snd (rCb i msg s)) = M_END s"
  by (simp add: rCb_def Let_def split: point.splits)

lemma tick_flags: "\<not> (M_START (fst (tick s)) \<and> M_END (fst (tick s)))"
  by (simp add: tick_def isFormationComplete_def Let_def split: prod.splits)

lemma robot_callbacks_flags:
  assumes "i < length robot_callbacks"
  shows "M_START (snd ((robot_callbacks ! i) msg s)) = M_START s \<and>
         M_END (snd ((robot_callbacks ! i) msg s)) = M_END s"
proof -
  have "i < 5" using assms by (simp add: robot_callbacks_def)
  then have "robot_callbacks ! i = rCb i"
    by (auto simp add: robot_callbacks_def r0Cb_def r1Cb_def r2Cb_def r3Cb_def r4Cb_def
        less_Suc_eq eval_nat_numeral)
  then show ?thesis by (simp add: rCb_flags)
qed

lemma step_keeps_exclusive:
  assumes "\<not> (M_START s \<and> M_END s)"
  shows "\<not> (M_START (step lapjv e s) \<and> M_END (step lapjv e s))"
proof (cases e)
  case Tick
  then show ?thesis using tick_flags by simp
next
  case (Start now shape)
  then show ?thesis using assms startCb_flags[of lapjv now shape s] by simp
next
  case Land
  then show ?thesis by (simp add: landCb_def)
next
  case Hold
  then show ?thesis by (simp add: holdCb_def)
next
  case (Robot i msg)
  then show ?thesis using assms robot_callbacks_flags[of i msg s] by simp
qed

lemma exec_keeps_exclusive:
  "\<not> (M_START s \<and> M_END s) \<Longrightarrow> \<not> (M_START (exec lapjv evs s) \<and> M_END (exec lapjv evs s))"
proof (induction evs arbitrary: s)
  case Nil
  then show ?case by simp
next
  case (Cons e evs)
  show ?case using Cons.IH[OF step_keeps_exclusive[OF Cons.prems]] by simp
qed

lemma ended_only_by_tick:
  assumes "\<not> M_END s" "M_END (step lapjv e s)"
  shows "e = Tick \<and> (\<forall>i<length (arrival_state s). arrival_state s ! i)"
proof (cases e)
  case Tick
  then show ?thesis using assms
    by (auto simp add: tick_def isFormationComplete_def Let_def py_all_iff
        split: prod.splits if_splits)
next
  case (Start now shape)
  then show ?thesis using assms startCb_flags[of lapjv now shape s] by simp
next
  case Land
  then show ?thesis using assms by (simp add: landCb_def)
next
  case Hold
  then show ?thesis using assms by (simp add: holdCb_def)
next
  case (Robot i msg)
  then show ?thesis using assms robot_callbacks_flags[of i msg s] by (simp split: if_splits)
qed

lemma ended_sticks:
  assumes "M_END s" "\<not> M_START s"
  shows "M_END (step lapjv e s) \<and> \<not> M_START (step lapjv e s)"
proof (cases e)
  case Tick
  then show ?thesis using assms
    by (simp add: tick_def isFormationComplete_def Let_def split: prod.splits)
next
  case (Start now shape)
  then show ?thesis using assms startCb_flags[of lapjv now shape s] by simp
next
  case Land
  then show ?thesis using assms by (simp add: landCb_def)
next
  case Hold
  then show ?thesis using assms by (simp add: holdCb_def)
next
  case (Robot i msg)
  then show ?thesis using assms robot_callbacks_flags[of i msg s] by simp
qed

text \<open>
  C4, as amended: in every state reached from the constructed state by passes of the
  control loop, start, land and hold commands and robot state callbacks, \<open>M_START\<close>
  and \<open>M_END\<close> are not both true, and a pass of the control loop ends in such a state
  from any state.  \<open>M_END\<close> turns from false to true only in a pass of the control
  loop that finds every arrival flag true; once it is true and the mission is not
  started, every event leaves it true, also a robot state callback that clears an
  arrival flag.
\<close>

theorem started_ended_exclusive:
  "\<not> (M_START (exec lapjv evs (init m r v shape)) \<and> M_END (exec lapjv evs (init m r v shape)))
   \<and> \<not> (M_START (fst (tick s)) \<and> M_END (fst (tick s)))
   \<and> (\<not> M_END s \<and> M_END (step lapjv e s) \<longrightarrow>
        e = Tick \<and> (\<forall>i<length (arrival_state s). arrival_state s ! i))
   \<and> (M_END s \<and> \<not> M_START s \<longrightarrow> M_END (step lapjv e s) \<and> \<not> M_START (step lapjv e s))"
proof -
  have "\<not> (M_START (init m r v shape) \<and> M_END (init m r v shape))"
    by (simp add: init_def)
  then show ?thesis
    using exec_keeps_exclusive ended_only_by_tick ended_sticks tick_flags by blast
qed

theorem started_ended_exclusive_witness:
  "\<not> M_END (exec no_solver all_arrive (init 5 (1/2) 1 (line_up 5)))
   \<and> M_END (step no_solver Tick (exec no_solver all_arrive (init 5 (1/2) 1 (line_up 5))))
   \<and> py_all (arrival_state (exec no_solver all_arrive (init 5 (1/2) 1 (line_up 5))))
   \<and> \<not> M_START (exec no_solver (all_arrive @ [Tick]) (init 5 (1/2) 1 (line_up 5)))
   \<and> M_END (step no_solver (Robot 0 (robot_msg False))
              (exec no_solver (all_arrive @ [Tick]) (init 5 (1/2) 1 (line_up 5))))"
proof -
  let ?s = "exec no_solver all_arrive (init 5 (1/2) 1 (line_up 5))"
  let ?s' = "exec no_solver (all_arrive @ [Tick]) (init 5 (1/2) 1 (line_up 5))"
  have a: "\<not> M_END ?s" "M_END (step no_solver Tick ?s)" "py_all (arrival_state ?s)"
    "\<not> M_START ?s'" "M_END ?s'"
    using all_arrive_state
    by (simp_all add: exec_append tick_def isFormationComplete_def py_all_def Let_def
        split: prod.splits)
  show ?thesis
    using started_ended_exclusive[of no_solver "all_arrive @ [Tick]" 5 "1/2" 1 "line_up 5" ?s Tick]
      started_ended_exclusive[of no_solver "all_arrive @ [Tick]" 5 "1/2" 1 "line_up 5" ?s'
        "Robot 0 (robot_msg False)"] a
    by blast
qed

text \<open>
  C4 as stated fails: five robots report their arrival, a pass of the control loop
  marks the mission ended, then robot 0 reports that it has not arrived.  The state
  reached has \<open>M_END\<close> true while not all arrival flags are true.
\<close>

theorem ended_without_all_arrived:
  "M_END (exec no_solver (all_arrive @ [Tick, Robot 0 (robot_msg False)]) (init 5 (1/2) 1 (line_up 5)))
   \<and> \<not> py_all (arrival_state
         (exec no_solver (all_arrive @ [Tick, Robot 0 (robot_msg False)]) (init 5 (1/2) 1 (line_up 5))))"
  using all_arrive_state
  by (simp add: exec_append tick_def isFormationComplete_def py_all_def robot_callbacks_def
      r0Cb_def rCb_def robot_msg_def Let_def split: prod.splits)

section \<open>Assignment\<close>

lemma transpose_rows3:
  assumes "S \<noteq> []" "\<forall>row\<in>set S. length row = 3"
  shows "transpose S = map (\<lambda>i. map (\<lambda>j. S ! j ! i) [0..<length S]) [0..<3]"
  using assms by (intro transpose_rectangle) auto

lemma transpose_transpose_rows3:
  assumes "S \<noteq> []" "\<forall>row\<in>set S. length row = (3::nat)"
  shows "transpose (transpose S) = S"
proof -
  let ?T = "transpose S"
  have T: "?T = map (\<lambda>i. map (\<lambda>j. S ! j ! i) [0..<length S]) [0..<3]"
    by (rule transpose_rows3[OF assms])
  have "transpose ?T = map (\<lambda>i. map (\<lambda>j. ?T ! j ! i) [0..<length ?T]) [0..<length S]"
    by (rule transpose_rectangle) (simp_all add: T)
  also have "\<dots> = S"
  proof (rule nth_equalityI)
    show "length (map (\<lambda>i. map (\<lambda>j. ?T ! j ! i) [0..<length ?T]) [0..<length S]) = length S"
      by simp
  next
    fix i assume "i < length (map (\<lambda>i. map (\<lambda>j. ?T ! j ! i) [0..<length ?T]) [0..<length S])"
    then have i: "i < length S" by simp
    then have len: "length (S ! i) = 3" using assms(2) by simp
    have "map (\<lambda>j. ?T ! j ! i) [0..<length ?T] = S ! i"
    proof (rule nth_equalityI)
      show "length (map (\<lambda>j. ?T ! j ! i) [0..<length ?T]) = length (S ! i)"
        using len by (simp add: T)
    next
      fix j assume "j < length (map (\<lambda>j. ?T ! j ! i) [0..<length ?T])"
      then have "j < 3" by (simp add: T)
      then show "map (\<lambda>j. ?T ! j ! i) [0..<length ?T] ! j = S ! i ! j"
        using i by (simp add: T)
    qed
    then show "map (\<lambda>i. map (\<lambda>j. ?T ! j ! i) [0..<length ?T]) [0..<length S] ! i = S ! i"
      using i by simp
  qed
  finally show ?thesis .
qed

lemma inner_prod3:
  assumes "length a = 3" "length b = 3"
  shows "inner_prod a b = a ! 0 * b ! 0 + a ! 1 * b ! 1 + a ! 2 * b ! 2"
proof -
  obtain a0 a1 a2 where a: "a = [a0, a1, a2]"
    using assms(1) by (auto simp add: length_Suc_conv eval_nat_numeral)
  obtain b0 b1 b2 where b: "b = [b0, b1, b2]"
    using assms(2) by (auto simp add: length_Suc_conv eval_nat_numeral)
  show ?thesis by (simp add: a b inner_prod_def)
qed

lemma K_eq:
  assumes "\<forall>row\<in>set (P s). length row = 3" "\<forall>row\<in>set (S_array s). length row = 3"
    "S_array s \<noteq> []"
  shows "K s = Inr (map (\<lambda>a. map (\<lambda>b. - inner_prod a b) (S_array s)) (P s))"
proof -
  have "length (transpose (S_array s)) = 3"
    by (simp add: transpose_rows3[OF assms(3) assms(2)])
  then have "list_all (\<lambda>row. length row = length (np_transpose (S_array s))) (P s)"
    using assms(1) by (simp add: list_all_iff np_transpose_def)
  then show ?thesis
    by (simp add: K_def np_dot_def np_transpose_def transpose_transpose_rows3[OF assms(3) assms(2)]
        comp_def)
qed

lemma lined_up_fields:
  "n lined_up = 2" "P lined_up = [[0, 0, 0], [3, 0, 0]]" "S_array lined_up = [[0, 4, 0], [3, 4, 0]]"
  "vmax lined_up = 1" "length (G lined_up) = 2" "length (goals (goals_msg lined_up)) = 2"
  by (simp_all add: lined_up_def init_def spread_def targets_def)

lemma assign_loop_step:
  assumes "i < length xs" "0 \<le> xs ! i" "nat (xs ! i) < length (S_array s)"
    "i < length (G s)" "i < length (goals (goals_msg s))" "i < length (P s)"
    "length (S_array s ! nat (xs ! i)) = 3"
  shows "assign_loop xs s t (i # is) = assign_loop xs (assigned s xs i) (max t (travel s xs i)) is"
  using assms
  by (simp add: py_get_nat py_get_nonneg Let_def assigned_def travel_def as_point_def max_def)

lemma assign_loop_spec:
  assumes "\<forall>i\<in>set is. i < length xs \<and> 0 \<le> xs ! i \<and> nat (xs ! i) < length (S_array s)
             \<and> i < length (G s) \<and> i < length (goals (goals_msg s)) \<and> i < length (P s)"
    "\<forall>row\<in>set (S_array s). length row = 3"
  shows "\<exists>G' goals' t'.
           assign_loop xs s t is
             = Inr (s\<lparr>G := G', goals_msg := (goals_msg s)\<lparr>goals := goals'\<rparr>\<rparr>, t')
         \<and> length G' = length (G s) \<and> length goals' = length (goals (goals_msg s))
         \<and> (\<forall>i. G' ! i = (if i \<in> set is then S_array s ! nat (xs ! i) else G s ! i))
         \<and> (\<forall>i. goals' ! i = (if i \<in> set is then as_point (S_array s ! nat (xs ! i))
                               else goals (goals_msg s) ! i))
         \<and> t \<le> t' \<and> (\<forall>i\<in>set is. travel s xs i \<le> t')
         \<and> (t' = t \<or> (\<exists>i\<in>set is. t' = travel s xs i))"
  using assms
proof (induction "is" arbitrary: s t)
  case Nil
  show ?case
    by (rule exI[of _ "G s"], rule exI[of _ "goals (goals_msg s)"], rule exI[of _ t]) simp
next
  case (Cons i "is")
  let ?s2 = "assigned s xs i"
  let ?t2 = "max t (travel s xs i)"
  have i: "i < length xs" "0 \<le> xs ! i" "nat (xs ! i) < length (S_array s)"
    "i < length (G s)" "i < length (goals (goals_msg s))" "i < length (P s)"
    using Cons.prems(1) by simp_all
  have row: "length (S_array s ! nat (xs ! i)) = 3" using Cons.prems(2) i(3) by simp
  have step: "assign_loop xs s t (i # is) = assign_loop xs ?s2 ?t2 is"
    by (rule assign_loop_step[OF i row])
  have same: "S_array ?s2 = S_array s" "P ?s2 = P s" "vmax ?s2 = vmax s"
    "length (G ?s2) = length (G s)"
    "length (goals (goals_msg ?s2)) = length (goals (goals_msg s))"
    by (simp_all add: assigned_def)
  have tr: "travel ?s2 xs = travel s xs" by (rule ext) (simp add: travel_def same)
  have pre1: "\<forall>i\<in>set is. i < length xs \<and> 0 \<le> xs ! i \<and> nat (xs ! i) < length (S_array ?s2)
             \<and> i < length (G ?s2) \<and> i < length (goals (goals_msg ?s2)) \<and> i < length (P ?s2)"
    using Cons.prems(1) by (simp add: same)
  have pre2: "\<forall>row\<in>set (S_array ?s2). length row = 3" using Cons.prems(2) by (simp add: same)
  from Cons.IH[OF pre1 pre2, of ?t2]
  obtain G' goals' t' where ih:
    "assign_loop xs ?s2 ?t2 is
       = Inr (?s2\<lparr>G := G', goals_msg := (goals_msg ?s2)\<lparr>goals := goals'\<rparr>\<rparr>, t')"
    "length G' = length (G ?s2)" "length goals' = length (goals (goals_msg ?s2))"
    "\<forall>k. G' ! k = (if k \<in> set is then S_array ?s2 ! nat (xs ! k) else G ?s2 ! k)"
    "\<forall>k. goals' ! k = (if k \<in> set is then as_point (S_array ?s2 ! nat (xs ! k))
                               else goals (goals_msg ?s2) ! k)"
    "?t2 \<le> t'" "\<forall>k\<in>set is. travel ?s2 xs k \<le> t'"
    "t' = ?t2 \<or> (\<exists>k\<in>set is. t' = travel ?s2 xs k)"
    by blast
  have eq: "?s2\<lparr>G := G', goals_msg := (goals_msg ?s2)\<lparr>goals := goals'\<rparr>\<rparr>
             = s\<lparr>G := G', goals_msg := (goals_msg s)\<lparr>goals := goals'\<rparr>\<rparr>"
    by (simp add: assigned_def)
  have g: "\<forall>k. G' ! k = (if k \<in> set (i # is) then S_array s ! nat (xs ! k) else G s ! k)"
    using ih(4) i(4) by (auto simp add: assigned_def nth_list_update)
  have p: "\<forall>k. goals' ! k = (if k \<in> set (i # is) then as_point (S_array s ! nat (xs ! k))
                               else goals (goals_msg s) ! k)"
    using ih(5) i(5) by (auto simp add: assigned_def nth_list_update)
  have b1: "t \<le> t'" using ih(6) by simp
  have b2: "\<forall>k\<in>set (i # is). travel s xs k \<le> t'" using ih(6,7) by (simp add: tr)
  have b3: "t' = t \<or> (\<exists>k\<in>set (i # is). t' = travel s xs k)"
    using ih(8) unfolding tr by (auto simp add: max_def split: if_splits)
  show ?case
    apply (rule exI[of _ G'], rule exI[of _ goals'], rule exI[of _ t'])
    using step ih(1) eq ih(2,3) same g p b1 b2 b3 by simp
qed

lemma perm_facts:
  assumes "mset xs = mset (map int [0..<m])"
  shows "length xs = m" "distinct xs" "\<forall>i<m. 0 \<le> xs ! i \<and> nat (xs ! i) < m"
proof -
  show len: "length xs = m" using mset_eq_length[OF assms] by simp
  have "distinct (map int [0..<m])" by (simp add: distinct_map)
  then show "distinct xs" using mset_eq_imp_distinct_iff[OF assms] by simp
  have "set xs = set (map int [0..<m])" by (rule mset_eq_setD[OF assms])
  then have "\<forall>k\<in>set xs. 0 \<le> k \<and> nat k < m" by auto
  then show "\<forall>i<m. 0 \<le> xs ! i \<and> nat (xs ! i) < m" using len by simp
qed

lemma mset_rearranged:
  assumes "mset xs = mset (map int [0..<length S])"
  shows "mset (map (\<lambda>i. S ! nat (xs ! i)) [0..<length S]) = mset S"
proof -
  have len: "length xs = length S" by (rule perm_facts(1)[OF assms])
  have "map (\<lambda>i. S ! nat (xs ! i)) [0..<length S] = map (\<lambda>k. S ! nat k) xs"
    by (rule nth_equalityI) (simp_all add: len)
  then have "mset (map (\<lambda>i. S ! nat (xs ! i)) [0..<length S]) = image_mset (\<lambda>k. S ! nat k) (mset xs)"
    by simp
  also have "\<dots> = image_mset (\<lambda>k. S ! nat k) (mset (map int [0..<length S]))"
    by (simp only: assms)
  also have "\<dots> = mset (map (\<lambda>k. S ! nat k) (map int [0..<length S]))"
    by (simp only: mset_map)
  also have "map (\<lambda>k. S ! nat k) (map int [0..<length S]) = map (\<lambda>i. S ! i) [0..<length S]"
    by simp
  also have "map (\<lambda>i. S ! i) [0..<length S] = S" by (rule map_nth)
  finally show ?thesis .
qed

lemma identity_solver_perm:
  "\<forall>cost. length cost = m \<and> (\<forall>row\<in>set cost. length row = m) \<longrightarrow>
     (\<exists>c xs ys. identity_solver cost = Inr (c, xs, ys) \<and> mset xs = mset (map int [0..<m]))"
  by (simp add: identity_solver_def)

text \<open>
  C1: let \<open>P\<close>, \<open>S_array\<close>, \<open>G\<close> and the goals of the message have \<open>n > 0\<close> rows, the rows
  of \<open>P\<close> and \<open>S_array\<close> three entries, and let \<open>vmax > 0\<close>.  If the solver answers
  every \<open>n \<times> n\<close> cost matrix with a permutation \<open>x\<close> of \<open>0, ..., n - 1\<close> (its contract),
  then \<open>compute_assignment\<close> returns; the \<open>x\<close> it uses is the solver's answer to the
  cost matrix \<open>K\<close>, a permutation, so no two robots get the same slot; \<open>G[i] = S[x[i]]\<close>
  for every robot, the goals of the message are these rows, and \<open>G\<close> is a
  rearrangement of \<open>S\<close>; and the deadline \<open>tf\<close> of the message is the maximum over the
  robots of \<open>\<parallel>P[i] - G[i]\<parallel> / vmax\<close>: it bounds each of these and equals one of them.
\<close>

theorem compute_assignment_goals_and_deadline:
  assumes wf: "length (P s) = n s" "length (S_array s) = n s" "length (G s) = n s"
      "length (goals (goals_msg s)) = n s"
      "\<forall>row\<in>set (P s). length row = 3" "\<forall>row\<in>set (S_array s). length row = 3"
    and pos: "0 < n s" "0 < vmax s"
    and solver: "\<forall>cost. length cost = n s \<and> (\<forall>row\<in>set cost. length row = n s) \<longrightarrow>
        (\<exists>c xs ys. lapjv cost = Inr (c, xs, ys) \<and> mset xs = mset (map int [0..<n s]))"
  shows "\<exists>s' out cost c xs ys.
      compute_assignment lapjv now s = Inr (s', out) \<and> K s = Inr cost
      \<and> lapjv cost = Inr (c, xs, ys) \<and> mset xs = mset (map int [0..<n s])
      \<and> (\<forall>i<n s. \<forall>j<n s. i \<noteq> j \<longrightarrow> xs ! i \<noteq> xs ! j)
      \<and> (\<forall>i<n s. G s' ! i = S_array s ! nat (xs ! i)
                  \<and> goals (goals_msg s') ! i = as_point (G s' ! i))
      \<and> mset (G s') = mset (S_array s)
      \<and> (\<forall>i<n s. np_norm (vsub (P s ! i) (G s' ! i)) / vmax s \<le> tf (goals_msg s'))
      \<and> (\<exists>i<n s. tf (goals_msg s') = np_norm (vsub (P s ! i) (G s' ! i)) / vmax s)
      \<and> tf (goals_msg s') = Max ((\<lambda>i. np_norm (vsub (P s ! i) (G s' ! i)) / vmax s) ` {..<n s})
      \<and> G_is_set s' \<and> P s' = P s \<and> S_array s' = S_array s"
proof -
  have ne: "S_array s \<noteq> []" using wf(2) pos(1) by auto
  let ?cost = "map (\<lambda>a. map (\<lambda>b. - inner_prod a b) (S_array s)) (P s)"
  have Ks: "K s = Inr ?cost" by (rule K_eq[OF wf(5,6) ne])
  have sq: "length ?cost = n s \<and> (\<forall>row\<in>set ?cost. length row = n s)"
    using wf(1,2) by auto
  from solver sq obtain c xs ys where
    sol: "lapjv ?cost = Inr (c, xs, ys)" and perm: "mset xs = mset (map int [0..<n s])"
    by blast
  note pf = perm_facts[OF perm]
  have pre: "\<forall>i\<in>set [0..<n s]. i < length xs \<and> 0 \<le> xs ! i \<and> nat (xs ! i) < length (S_array s)
             \<and> i < length (G s) \<and> i < length (goals (goals_msg s)) \<and> i < length (P s)"
    using pf wf by simp
  from assign_loop_spec[OF pre wf(6), of 0]
  obtain G' goals' t' where lp:
    "assign_loop xs s 0 [0..<n s]
       = Inr (s\<lparr>G := G', goals_msg := (goals_msg s)\<lparr>goals := goals'\<rparr>\<rparr>, t')"
    "length G' = length (G s)" "length goals' = length (goals (goals_msg s))"
    "\<forall>i. G' ! i = (if i \<in> set [0..<n s] then S_array s ! nat (xs ! i) else G s ! i)"
    "\<forall>i. goals' ! i = (if i \<in> set [0..<n s] then as_point (S_array s ! nat (xs ! i))
                               else goals (goals_msg s) ! i)"
    "0 \<le> t'" "\<forall>i\<in>set [0..<n s]. travel s xs i \<le> t'"
    "t' = 0 \<or> (\<exists>i\<in>set [0..<n s]. t' = travel s xs i)"
    by blast
  let ?s' = "s\<lparr>G := G',
       goals_msg := (goals_msg s)\<lparr>goals := goals', tf := t', header_stamp := now\<rparr>,
       G_is_set := True\<rparr>"
  let ?out = "[LogWarn ''Solving Assignement Problem....'',
                LogWarn ''Assignment is solved in %s seconds'']"
  have ca: "compute_assignment lapjv now s = Inr (?s', ?out)"
    by (simp add: compute_assignment_def Ks sol lp(1))
  have Gi: "\<forall>i<n s. G' ! i = S_array s ! nat (xs ! i)" using lp(4) by simp
  have gi: "\<forall>i<n s. goals' ! i = as_point (G' ! i)" using lp(4,5) by simp
  have tr: "\<forall>i<n s. np_norm (vsub (P s ! i) (G' ! i)) / vmax s = travel s xs i"
    using Gi by (simp add: travel_def)
  have G_eq: "G' = map (\<lambda>i. S_array s ! nat (xs ! i)) [0..<length (S_array s)]"
    by (rule nth_equalityI) (use lp(2) wf Gi in simp_all)
  have ms: "mset G' = mset (S_array s)"
    unfolding G_eq by (rule mset_rearranged) (simp add: perm wf)
  have inj: "\<forall>i<n s. \<forall>j<n s. i \<noteq> j \<longrightarrow> xs ! i \<noteq> xs ! j"
    using pf(1,2) by (simp add: nth_eq_iff_index_eq)
  have ub: "\<forall>i<n s. travel s xs i \<le> t'" using lp(7) by simp
  have att: "\<exists>i<n s. t' = travel s xs i"
  proof (cases "t' = 0")
    case True
    have "0 \<le> travel s xs 0" using pos(2) by (simp add: travel_def np_norm_nonneg)
    moreover have "travel s xs 0 \<le> 0" using ub pos(1) True by auto
    ultimately show ?thesis using True pos(1) by auto
  next
    case False
    then show ?thesis using lp(8) by auto
  qed
  have mx: "t' = Max ((\<lambda>i. travel s xs i) ` {..<n s})"
  proof (rule sym, rule Max_eqI)
    show "finite ((\<lambda>i. travel s xs i) ` {..<n s})" by simp
    show "\<And>y. y \<in> (\<lambda>i. travel s xs i) ` {..<n s} \<Longrightarrow> y \<le> t'" using ub by auto
    show "t' \<in> (\<lambda>i. travel s xs i) ` {..<n s}" using att by auto
  qed
  have img: "(\<lambda>i. np_norm (vsub (P s ! i) (G' ! i)) / vmax s) ` {..<n s}
              = (\<lambda>i. travel s xs i) ` {..<n s}"
    using tr by (intro image_cong) simp_all
  have c1: "\<forall>i<n s. G ?s' ! i = S_array s ! nat (xs ! i)
                  \<and> goals (goals_msg ?s') ! i = as_point (G ?s' ! i)"
    using Gi gi by simp
  have c2: "mset (G ?s') = mset (S_array s)" using ms by simp
  have c3: "\<forall>i<n s. np_norm (vsub (P s ! i) (G ?s' ! i)) / vmax s \<le> tf (goals_msg ?s')"
    using ub tr by simp
  have c4: "\<exists>i<n s. tf (goals_msg ?s') = np_norm (vsub (P s ! i) (G ?s' ! i)) / vmax s"
    using att tr by auto
  have c5: "tf (goals_msg ?s')
              = Max ((\<lambda>i. np_norm (vsub (P s ! i) (G ?s' ! i)) / vmax s) ` {..<n s})"
    using mx img by simp
  have c6: "G_is_set ?s' \<and> P ?s' = P s \<and> S_array ?s' = S_array s" by simp
  show ?thesis
    apply (rule exI[of _ ?s'], rule exI[of _ ?out], rule exI[of _ ?cost], rule exI[of _ c],
        rule exI[of _ xs], rule exI[of _ ys])
    using ca Ks sol perm inj c1 c2 c3 c4 c5 c6 by blast
qed

theorem compute_assignment_goals_and_deadline_witness:
  "length (P lined_up) = n lined_up \<and> length (S_array lined_up) = n lined_up
   \<and> length (G lined_up) = n lined_up \<and> length (goals (goals_msg lined_up)) = n lined_up
   \<and> map length (P lined_up) = [3, 3] \<and> map length (S_array lined_up) = [3, 3]
   \<and> 0 < n lined_up \<and> 0 < vmax lined_up
   \<and> (\<exists>s' out. compute_assignment identity_solver 0 lined_up = Inr (s', out)
         \<and> G s' ! 0 = [0, 4, 0] \<and> G s' ! 1 = [3, 4, 0] \<and> tf (goals_msg s') = 4 \<and> G_is_set s')"
proof -
  have w: "length (P lined_up) = n lined_up" "length (S_array lined_up) = n lined_up"
    "length (G lined_up) = n lined_up" "length (goals (goals_msg lined_up)) = n lined_up"
    "\<forall>row\<in>set (P lined_up). length row = 3" "\<forall>row\<in>set (S_array lined_up). length row = 3"
    "0 < n lined_up" "0 < vmax lined_up"
    by (simp_all add: lined_up_fields)
  have w': "map length (P lined_up) = [3, 3]" "map length (S_array lined_up) = [3, 3]"
    by (simp_all add: lined_up_fields)
  from compute_assignment_goals_and_deadline[OF w identity_solver_perm, of 0]
  obtain s' out cost c xs ys where r:
      "compute_assignment identity_solver 0 lined_up = Inr (s', out)" "K lined_up = Inr cost"
      "identity_solver cost = Inr (c, xs, ys)"
      "\<forall>i<n lined_up. G s' ! i = S_array lined_up ! nat (xs ! i)
                  \<and> goals (goals_msg s') ! i = as_point (G s' ! i)"
      "\<exists>i<n lined_up. tf (goals_msg s') = np_norm (vsub (P lined_up ! i) (G s' ! i)) / vmax lined_up"
      "G_is_set s'"
    by (elim exE conjE) blast
  have "cost = map (\<lambda>a. map (\<lambda>b. - inner_prod a b) (S_array lined_up)) (P lined_up)"
    using r(2) K_eq[of lined_up] by (simp add: lined_up_fields)
  then have "length cost = 2" by (simp add: lined_up_fields)
  then have xs: "xs = [0, 1]" using r(3) by (simp add: identity_solver_def upt2)
  have g: "G s' ! 0 = [0, 4, 0]" "G s' ! 1 = [3, 4, 0]"
    using r(4) by (simp_all add: lined_up_fields xs)
  have g': "G s' ! Suc 0 = [3, 4, 0]" using g(2) by simp
  obtain i where i: "i < 2"
    "tf (goals_msg s') = np_norm (vsub (P lined_up ! i) (G s' ! i)) / vmax lined_up"
    using r(5) by (auto simp add: lined_up_fields)
  from i(1) consider "i = 0" | "i = 1" by linarith
  then have t: "tf (goals_msg s') = 4"
    by cases (simp_all add: i(2) g g' lined_up_fields np_norm_up)
  show ?thesis using w(1,2,3,4,7,8) w' r(1,6) g t by blast
qed

text \<open>
  C6: when the rows of \<open>P\<close> and of \<open>S_array\<close> have three entries, the cost matrix
  \<open>K\<close> exists, has a row for each robot and a column for each slot, and its entry
  \<open>(i, j)\<close> is the negated dot product of start position \<open>i\<close> and slot \<open>j\<close>; and
  this matrix is what \<open>compute_assignment\<close> hands to the solver: the call is the
  solver's answer to \<open>K\<close> followed by the assignment loop, so it fails with the
  solver's exception when the solver raises on \<open>K\<close>, and two solvers that answer \<open>K\<close>
  alike give the same result.  (The witness shows an entry \<open>- 9\<close> where the distance is
  \<open>4\<close>, and a solver that raises on every matrix but this \<open>K\<close>.)
\<close>

theorem cost_matrix_negated_dot:
  assumes "\<forall>row\<in>set (P s). length row = 3" "\<forall>row\<in>set (S_array s). length row = 3"
    "i < length (P s)" "j < length (S_array s)"
  shows "\<exists>cost. K s = Inr cost \<and> length cost = length (P s)
           \<and> length (cost ! i) = length (S_array s)
           \<and> cost ! i ! j = - (P s ! i ! 0 * S_array s ! j ! 0 + P s ! i ! 1 * S_array s ! j ! 1
                                + P s ! i ! 2 * S_array s ! j ! 2)
           \<and> compute_assignment lapjv now s =
                (case lapjv cost of
                   Inl e \<Rightarrow> Inl e
                 | Inr (k_opt, xs, ys) \<Rightarrow>
                     (case assign_loop xs s 0 [0..<n s] of
                        Inl e \<Rightarrow> Inl e
                      | Inr (s1, t) \<Rightarrow>
                          Inr (s1\<lparr>goals_msg := (goals_msg s1)\<lparr>tf := t, header_stamp := now\<rparr>,
                                  G_is_set := True\<rparr>,
                               [LogWarn ''Solving Assignement Problem....'',
                                LogWarn ''Assignment is solved in %s seconds''])))
           \<and> (\<forall>e. lapjv cost = Inl e \<longrightarrow> compute_assignment lapjv now s = Inl e)
           \<and> (\<forall>other. other cost = lapjv cost \<longrightarrow>
                 compute_assignment other now s = compute_assignment lapjv now s)"
proof -
  have ne: "S_array s \<noteq> []" using assms(4) by auto
  let ?cost = "map (\<lambda>a. map (\<lambda>b. - inner_prod a b) (S_array s)) (P s)"
  have Ks: "K s = Inr ?cost" by (rule K_eq[OF assms(1,2) ne])
  have len: "length (P s ! i) = 3" "length (S_array s ! j) = 3" using assms by simp_all
  have e: "?cost ! i ! j = - (P s ! i ! 0 * S_array s ! j ! 0 + P s ! i ! 1 * S_array s ! j ! 1
                                + P s ! i ! 2 * S_array s ! j ! 2)"
    using assms(3,4) len by (simp add: inner_prod3)
  have l: "length ?cost = length (P s)" "length (?cost ! i) = length (S_array s)"
    using assms(3) by simp_all
  have ca: "compute_assignment f now s =
                (case f ?cost of
                   Inl e \<Rightarrow> Inl e
                 | Inr (k_opt, xs, ys) \<Rightarrow>
                     (case assign_loop xs s 0 [0..<n s] of
                        Inl e \<Rightarrow> Inl e
                      | Inr (s1, t) \<Rightarrow>
                          Inr (s1\<lparr>goals_msg := (goals_msg s1)\<lparr>tf := t, header_stamp := now\<rparr>,
                                  G_is_set := True\<rparr>,
                               [LogWarn ''Solving Assignement Problem....'',
                                LogWarn ''Assignment is solved in %s seconds''])))" for f
    by (simp add: compute_assignment_def Ks)
  have r: "\<forall>e. lapjv ?cost = Inl e \<longrightarrow> compute_assignment lapjv now s = Inl e"
    by (simp add: ca)
  have d: "\<forall>other. other ?cost = lapjv ?cost \<longrightarrow>
                 compute_assignment other now s = compute_assignment lapjv now s"
    by (simp add: ca)
  show ?thesis
    apply (rule exI[of _ ?cost])
    using Ks l e ca[of lapjv] r d by blast
qed

lemma K_lined_up: "K lined_up = Inr [[0, 0], [0, - 9]]"
proof -
  have "K lined_up
          = Inr (map (\<lambda>a. map (\<lambda>b. - inner_prod a b) (S_array lined_up)) (P lined_up))"
    by (rule K_eq) (simp_all add: lined_up_fields)
  then show ?thesis by (simp add: lined_up_fields inner_prod_def)
qed

lemma assign_loop_lined_up:
  "\<exists>r. assign_loop [0, 1] lined_up 0 [0..<n lined_up] = Inr r"
proof -
  have pre: "\<forall>i\<in>set [0..<n lined_up]. i < length [0, 1::int] \<and> 0 \<le> [0, 1::int] ! i
             \<and> nat ([0, 1::int] ! i) < length (S_array lined_up)
             \<and> i < length (G lined_up) \<and> i < length (goals (goals_msg lined_up))
             \<and> i < length (P lined_up)"
    by (simp add: lined_up_fields upt2)
  have rows: "\<forall>row\<in>set (S_array lined_up). length row = 3" by (simp add: lined_up_fields)
  from assign_loop_spec[OF pre rows, of 0] show ?thesis by blast
qed

theorem cost_matrix_negated_dot_witness:
  "map length (P lined_up) = [3, 3] \<and> map length (S_array lined_up) = [3, 3]
   \<and> 1 < length (P lined_up) \<and> 1 < length (S_array lined_up)
   \<and> (\<exists>cost. K lined_up = Inr cost \<and> cost ! 1 ! 1 = - 9)
   \<and> np_norm (vsub (P lined_up ! 1) (S_array lined_up ! 1)) = 4
   \<and> (\<exists>r. compute_assignment probe_solver 0 lined_up = Inr r)
   \<and> compute_assignment no_solver 0 lined_up = Inl ValueError"
proof -
  have a: "\<forall>row\<in>set (P lined_up). length row = 3" "\<forall>row\<in>set (S_array lined_up). length row = 3"
     "1 < length (P lined_up)" "1 < length (S_array lined_up)"
    by (simp_all add: lined_up_fields)
  have a': "map length (P lined_up) = [3, 3]" "map length (S_array lined_up) = [3, 3]"
    by (simp_all add: lined_up_fields)
  from cost_matrix_negated_dot[OF a, of probe_solver 0] obtain cost where c:
    "K lined_up = Inr cost" "cost ! 1 ! 1 = - 9"
    "compute_assignment probe_solver 0 lined_up =
                (case probe_solver cost of
                   Inl e \<Rightarrow> Inl e
                 | Inr (k_opt, xs, ys) \<Rightarrow>
                     (case assign_loop xs lined_up 0 [0..<n lined_up] of
                        Inl e \<Rightarrow> Inl e
                      | Inr (s1, t) \<Rightarrow>
                          Inr (s1\<lparr>goals_msg := (goals_msg s1)\<lparr>tf := t, header_stamp := 0\<rparr>,
                                  G_is_set := True\<rparr>,
                               [LogWarn ''Solving Assignement Problem....'',
                                LogWarn ''Assignment is solved in %s seconds''])))"
    by (auto simp add: lined_up_fields)
  have cost: "cost = [[0, 0], [0, - 9]]" using c(1) K_lined_up by simp
  obtain r where r: "assign_loop [0, 1] lined_up 0 [0..<n lined_up] = Inr r"
    using assign_loop_lined_up by blast
  have p: "\<exists>r. compute_assignment probe_solver 0 lined_up = Inr r"
    unfolding c(3) cost by (cases r) (simp add: probe_solver_def r)
  from cost_matrix_negated_dot[OF a, of no_solver 0]
  have q: "compute_assignment no_solver 0 lined_up = Inl ValueError"
    by (auto simp add: no_solver_def)
  have d: "np_norm (vsub (P lined_up ! 1) (S_array lined_up ! 1)) = 4"
    by (simp add: lined_up_fields np_norm_up)
  show ?thesis using a(3,4) a' c(1,2) p q d by blast
qed

section \<open>The bridge\<close>

lemma sent_commands_append: "sent_commands (es @ fs) = sent_commands es @ sent_commands fs"
  by (induction es rule: sent_commands.induct) simp_all

lemma formation_loop_spec:
  assumes "\<forall>i\<in>set is. i < length (goals msg)"
  shows "fst (formation_loop b msg is) = None
       \<and> sent_commands (snd (formation_loop b msg is)) = map (goal_command msg) is"
  using assms
proof (induction "is")
  case Nil
  then show ?case by simp
next
  case (Cons i "is")
  then have i: "i < length (goals msg)" by simp
  obtain gx gy gz where g: "goals msg ! i = Point gx gy gz" by (cases "goals msg ! i") auto
  obtain e rest where r: "formation_loop b msg is = (e, rest)"
    by (cases "formation_loop b msg is") auto
  with Cons have ih: "e = None" "sent_commands rest = map (goal_command msg) is" by simp_all
  show ?case
    using i g r ih by (simp add: py_get_nat sent_commands_append goal_command_def)
qed

lemma recvCb_report:
  assumes "msg_type rep = ''COMMAND_LONG''" "0 < srcSystem rep" "srcSystem rep \<le> bridge_n b"
    "command rep = MAV_CMD_USER_1" "target_system rep = Some (master_sys_id b)"
    "param1 rep = ROBOT_STATE"
  shows "recvCb b now (Some rep) =
      (None, (if DEBUG b then [BridgeWarn ''[Master]: Received ROBOT_STATE from Robot %s''] else [])
             @ [PublishState (nat (srcSystem rep - 1)) (state_of now rep)])"
proof -
  have "py_get (robot_state_pub_list b) (srcSystem rep - 1) = Inr (nat (srcSystem rep - 1))"
    using assms(2,3) by (simp add: py_get_def robot_state_pub_list_def Let_def)
  then show ?thesis
    using assms by (simp add: recvCb_def state_of_def ROBOT_STATE_def MASTER_CMD_ACK_def)
qed

lemma recvCb_no_target:
  "target_system msg = None \<Longrightarrow> recvCb b now (Some msg) = (Some AttributeError, [])"
  by (simp add: recvCb_def)

lemma recvCb_drop:
  assumes "target_system msg = Some tgt"
    "\<not> (msg_type msg = ''COMMAND_LONG'' \<and> 0 < srcSystem msg \<and> srcSystem msg \<le> bridge_n b
             \<and> command msg = MAV_CMD_USER_1 \<and> tgt = master_sys_id b)"
  shows "recvCb b now (Some msg) =
      (None, if DEBUG b
             then [BridgeWarn ''Received unexpected MAVLink msg of type: %s from MAVLink ID = %s'']
             else [])"
  using assms by (auto simp add: recvCb_def)

lemma recvCb_publish_only:
  assumes "PublishState k st \<in> set (snd (recvCb b now m))"
  shows "\<exists>msg. m = Some msg \<and> msg_type msg = ''COMMAND_LONG'' \<and> 1 \<le> srcSystem msg
          \<and> srcSystem msg \<le> bridge_n b \<and> command msg = MAV_CMD_USER_1
          \<and> target_system msg = Some (master_sys_id b) \<and> param1 msg = ROBOT_STATE
          \<and> k = nat (srcSystem msg - 1) \<and> st = state_of now msg"
proof (cases m)
  case None
  then show ?thesis using assms by (simp add: recvCb_def)
next
  case (Some msg)
  show ?thesis
  proof (cases "target_system msg")
    case None
    then show ?thesis using assms Some by (simp add: recvCb_no_target)
  next
    case tgt: (Some tgt)
    show ?thesis
    proof (cases "msg_type msg = ''COMMAND_LONG'' \<and> 0 < srcSystem msg
               \<and> srcSystem msg \<le> bridge_n b
               \<and> command msg = MAV_CMD_USER_1 \<and> tgt = master_sys_id b")
      case False
      then show ?thesis
        using assms Some recvCb_drop[OF tgt False, of now] by (simp split: if_splits)
    next
      case acc: True
      show ?thesis
      proof (cases "param1 msg = ROBOT_STATE")
        case True
        then show ?thesis
          using assms Some acc tgt recvCb_report[of msg b now] by (auto split: if_splits)
      next
        case False
        then show ?thesis
          using assms Some acc tgt
          by (auto simp add: recvCb_def split: option.splits if_splits)
      qed
    qed
  qed
qed

text \<open>
  What holds of the receiver: a state record is published only for a message of type
  \<open>COMMAND_LONG\<close> whose source address is in \<open>[1, n]\<close>, whose command is
  \<open>MAV_CMD_USER_1\<close> and whose target is the ground station (and whose first parameter
  says it is a robot state); it goes to the publisher of robot \<open>source - 1\<close>, with the
  received-goal, mission-started and arrived flags and the coordinates \<open>x\<close>, \<open>y\<close>, \<open>z\<close>
  taken from the parameters 2 to 7, in this order.  A message that has a target field
  and fails one of the four checks is dropped: nothing is raised, nothing is
  published, and only in debug mode a warning is logged.
\<close>

lemma recvCb_filter:
  "(PublishState k st \<in> set (snd (recvCb b now m)) \<longrightarrow>
      (\<exists>msg. m = Some msg \<and> msg_type msg = ''COMMAND_LONG'' \<and> 1 \<le> srcSystem msg
          \<and> srcSystem msg \<le> bridge_n b \<and> command msg = MAV_CMD_USER_1
          \<and> target_system msg = Some (master_sys_id b) \<and> param1 msg = ROBOT_STATE
          \<and> k = nat (srcSystem msg - 1) \<and> st = state_of now msg))
   \<and> (target_system msg = Some tgt
       \<and> \<not> (msg_type msg = ''COMMAND_LONG'' \<and> 0 < srcSystem msg \<and> srcSystem msg \<le> bridge_n b
             \<and> command msg = MAV_CMD_USER_1 \<and> tgt = master_sys_id b) \<longrightarrow>
       recvCb b now (Some msg) =
      (None, if DEBUG b
             then [BridgeWarn ''Received unexpected MAVLink msg of type: %s from MAVLink ID = %s'']
             else []))
   \<and> (msg_type rep = ''COMMAND_LONG'' \<and> 0 < srcSystem rep \<and> srcSystem rep \<le> bridge_n b
       \<and> command rep = MAV_CMD_USER_1 \<and> target_system rep = Some (master_sys_id b)
       \<and> param1 rep = ROBOT_STATE \<longrightarrow>
       recvCb b now (Some rep) =
      (None, (if DEBUG b then [BridgeWarn ''[Master]: Received ROBOT_STATE from Robot %s''] else [])
             @ [PublishState (nat (srcSystem rep - 1))
                  \<lparr> stamp = now, received_goal = param2 rep, mission_started = param3 rep,
                    arrived = param4 rep,
                    point = Point (param5 rep) (param6 rep) (param7 rep) \<rparr>]))"
  using recvCb_publish_only[of k st b now m] recvCb_drop[of msg tgt b now]
    recvCb_report[of rep b now]
  by (simp add: state_of_def)

text \<open>
  C9: the claim that every message failing the checks is dropped (and logged in debug
  mode only) does not hold of the receiver.  The heartbeat of robot 3 is not of type
  \<open>COMMAND_LONG\<close> and so fails the checks, but \<open>recvCb\<close> reads its \<open>target_system\<close>
  before it looks at the type: the read raises \<open>AttributeError\<close>, which leaves the loop
  of the receiver, in debug mode and without it, and the branch that logs the
  unexpected message is not reached.
\<close>

theorem recv_heartbeat_raises:
  "msg_type heartbeat \<noteq> ''COMMAND_LONG''
   \<and> recvCb ground_station 0 (Some heartbeat) = (Some AttributeError, [])
   \<and> recvCb (ground_station\<lparr>DEBUG := True\<rparr>) 0 (Some heartbeat) = (Some AttributeError, [])"
  by (simp add: recvCb_def heartbeat_def)

text \<open>
  C7: when the goals message has a goal for each of the \<open>n\<close> robots, \<open>formationCb\<close>
  raises nothing and sends one command per robot in increasing order of the robot
  index, the one for robot \<open>k\<close> to wire address \<open>k + 1\<close>; and a state report whose wire
  source address is that target address is published on the topic of robot \<open>k\<close>
  again.  In general a state report from wire source \<open>s\<close> in \<open>[1, n]\<close> is published
  for robot \<open>s - 1\<close>.
\<close>

theorem wire_address_round_trip:
  assumes "k < nat (bridge_n b)" "nat (bridge_n b) \<le> length (goals msg)"
  shows "fst (formationCb b msg) = None
    \<and> map tgt_sys (sent_commands (snd (formationCb b msg)))
        = map (\<lambda>i. int i + 1) [0..<nat (bridge_n b)]
    \<and> sent_commands (snd (formationCb b msg)) ! k = goal_command msg k
    \<and> tgt_sys (sent_commands (snd (formationCb b msg)) ! k) = int k + 1
    \<and> (state_report b rep
        \<and> srcSystem rep = tgt_sys (sent_commands (snd (formationCb b msg)) ! k) \<longrightarrow>
         recvCb b now (Some rep) =
           (None, (if DEBUG b then [BridgeWarn ''[Master]: Received ROBOT_STATE from Robot %s'']
                   else [])
             @ [PublishState k (state_of now rep)]))
    \<and> (state_report b rep \<and> 1 \<le> srcSystem rep \<and> srcSystem rep \<le> bridge_n b \<longrightarrow>
         recvCb b now (Some rep) =
           (None, (if DEBUG b then [BridgeWarn ''[Master]: Received ROBOT_STATE from Robot %s'']
                   else [])
             @ [PublishState (nat (srcSystem rep - 1)) (state_of now rep)]))"
proof -
  have a: "\<forall>i\<in>set [0..<nat (bridge_n b)]. i < length (goals msg)" using assms(2) by auto
  note fl = formation_loop_spec[OF a, of b]
  have s: "sent_commands (snd (formationCb b msg)) = map (goal_command msg) [0..<nat (bridge_n b)]"
    using fl by (simp add: formationCb_def)
  have t: "tgt_sys (goal_command msg i) = int i + 1" for i
    by (cases "goals msg ! i") (simp add: goal_command_def)
  have k: "sent_commands (snd (formationCb b msg)) ! k = goal_command msg k"
    using assms(1) by (simp add: s)
  have r1: "recvCb b now (Some rep) =
           (None, (if DEBUG b then [BridgeWarn ''[Master]: Received ROBOT_STATE from Robot %s'']
                   else [])
             @ [PublishState k (state_of now rep)])"
    if "state_report b rep" "srcSystem rep = int k + 1"
    using that assms(1) recvCb_report[of rep b now] by (simp add: state_report_def)
  have r2: "recvCb b now (Some rep) =
           (None, (if DEBUG b then [BridgeWarn ''[Master]: Received ROBOT_STATE from Robot %s'']
                   else [])
             @ [PublishState (nat (srcSystem rep - 1)) (state_of now rep)])"
    if "state_report b rep" "1 \<le> srcSystem rep" "srcSystem rep \<le> bridge_n b"
    using that recvCb_report[of rep b now] by (simp add: state_report_def)
  show ?thesis
    using fl s k t r1 r2 by (simp add: formationCb_def comp_def)
qed

theorem wire_address_round_trip_witness:
  "(2::nat) < nat (bridge_n ground_station)
   \<and> nat (bridge_n ground_station) \<le> length (goals five_goals)
   \<and> state_report ground_station (report_from 3)
   \<and> fst (formationCb ground_station five_goals) = None
   \<and> map tgt_sys (sent_commands (snd (formationCb ground_station five_goals))) = [1, 2, 3, 4, 5]
   \<and> tgt_sys (sent_commands (snd (formationCb ground_station five_goals)) ! 2) = 3
   \<and> srcSystem (report_from 3)
       = tgt_sys (sent_commands (snd (formationCb ground_station five_goals)) ! 2)
   \<and> recvCb ground_station 0 (Some (report_from 3))
       = (None, [PublishState 2 (state_of 0 (report_from 3))])"
proof -
  have a: "(2::nat) < nat (bridge_n ground_station)"
      "nat (bridge_n ground_station) \<le> length (goals five_goals)"
    by (simp_all add: ground_station_def five_goals_def)
  have b: "state_report ground_station (report_from 3)"
    by (simp add: state_report_def ground_station_def report_from_def MAV_CMD_USER_1_def
        ROBOT_STATE_def)
  have c: "srcSystem (report_from 3) = 3" "DEBUG ground_station = False"
    "[0..<nat (bridge_n ground_station)] = [0, 1, 2, 3, 4]"
    by (simp_all add: report_from_def ground_station_def upt_rec[of 0] upt_rec[of 1]
        upt_rec[of 2] upt_rec[of 3] upt_rec[of 4] eval_nat_numeral)
  show ?thesis
    using wire_address_round_trip[OF a, of "report_from 3" 0] a b
    by (simp add: c goal_command_def five_goals_def)
qed


end
